theory Spec2Isabelle
  imports Complex_Main "HOL-Library.Word" "HOL-Library.Sublist"
begin

section \<open>Data model\<close>

text \<open>
  The TypeScript of \<^verbatim>\<open>tts.ts\<close>, \<^verbatim>\<open>history.ts\<close> and \<^verbatim>\<open>voices.ts\<close> is embedded as
  HOL functions. An optional property (\<^verbatim>\<open>T | null | undefined\<close>) is an \<open>option\<close>:
  \<open>None\<close> stands for both \<^verbatim>\<open>null\<close> and \<^verbatim>\<open>undefined\<close>, which the code never tells apart
  (it tests them with \<^verbatim>\<open>??\<close>, with truthiness, with \<^verbatim>\<open>=== null\<close> on resolved values, which
  are never \<^verbatim>\<open>undefined\<close>, and with \<^verbatim>\<open>=== undefined\<close> on raw options, which are never
  \<^verbatim>\<open>null\<close>). A thrown \<^verbatim>\<open>Error\<close> is the \<open>Inl\<close> of a sum. Integers stand for the numbers
  of \<^verbatim>\<open>numGenerations\<close> and \<^verbatim>\<open>lastIndex\<close>; \<^verbatim>\<open>speed\<close> and \<^verbatim>\<open>trailingSilence\<close> are only
  passed through and are reals.
\<close>

datatype play_mode = PlayAll | PlayFirst | PlayOff

datatype audio_format = Wav | Mp3 | Pcm

datatype provider = CUSTOM_VOICE | HUME_AI

type_synonym Buffer = "8 word list"

text \<open>The errors thrown by the code, one constructor per \<^verbatim>\<open>throw\<close>; the arguments are
  the values interpolated into the message.\<close>

datatype error =
    CannotSpecifyBoth string string
      \<comment> \<open>\<^verbatim>\<open>Unexpected: cannot specify both --${a} and --${b}\<close>\<close>
  | NumGenerationsAndOutputFilePath
      \<comment> \<open>\<^verbatim>\<open>Unexpected: cannot specify both --num-generations and --output-file-path\<close>\<close>
  | OutputDirNotSet
  | PrefixNotSet
  | OutputOptsNotSet
  | NoPreviousGeneration
      \<comment> \<open>\<^verbatim>\<open>No previous generation found to continue from\<close>\<close>
  | SpecifyLastIndex nat nat
      \<comment> \<open>\<^verbatim>\<open>Unexpected: previous synthesis contained ${n} generations. Please specify
          --last-index as a number between 1 and ${m} to select from the previous synthesis\<close>\<close>
  | InstantModeRequiresStreaming
      \<comment> \<open>\<^verbatim>\<open>Instant mode requires streaming to be enabled\<close>\<close>
  | InstantModeRequiresNumGenerations1
      \<comment> \<open>\<^verbatim>\<open>Instant mode requires num_generations=1\<close>\<close>
  | InstantModeRequiresVoice
      \<comment> \<open>\<^verbatim>\<open>Instant mode requires a voice to be specified (use --voice-name, --voice-id,
          --last, or --continue)\<close>\<close>
  | ApiKeyNotSetError
  | NoAudioPlayerFound
      \<comment> \<open>\<^verbatim>\<open>No audio player found. Please install ffplay or specify a custom player with
          --play-command\<close>\<close>
  | StdinNotSupported
      \<comment> \<open>\<^verbatim>\<open>The audio player does not support playing from stdin. ...\<close>\<close>
  | PlayerProcessError
      \<comment> \<open>the \<^verbatim>\<open>error\<close> event of the player process\<close>
  | ProcessExitedWithCode int
      \<comment> \<open>\<^verbatim>\<open>Process exited with code ${code}\<close>\<close>
  | TypeError
      \<comment> \<open>a property read on \<^verbatim>\<open>undefined\<close>\<close>
  | NoPreviousGenerationToSave
      \<comment> \<open>\<^verbatim>\<open>No previous generation found to save as voice\<close>\<close>
  | PreviousSynthesisContained nat nat
      \<comment> \<open>\<^verbatim>\<open>Previous synthesis contained ${n} generations. Please specify --last-index
          between 1 and ${m}\<close>\<close>
  | SpecifyLastIndexBetween nat
      \<comment> \<open>\<^verbatim>\<open>Please specify --last-index between 1 and ${m}\<close>\<close>
  | MustSpecifyGenerationIdOrLast

record CommonOpts =
  common_json :: "bool option"
  common_pretty :: "bool option"
  common_apiKey :: "string option"
  common_debug :: "bool option"
  common_baseUrl :: "string option"

text \<open>\<^verbatim>\<open>SynthesisOpts\<close>: the raw command-line options.\<close>

record SynthesisOpts =
  opt_common :: CommonOpts
  opt_text :: string
  opt_voiceName :: "string option"
  opt_voiceId :: "string option"
  opt_description :: "string option"
  opt_contextGenerationId :: "string option"
  opt_numGenerations :: "int option"
  opt_outputFilePath :: "string option"
  opt_outputDir :: "string option"
  opt_prefix :: "string option"
  opt_play :: "play_mode option"
  opt_format :: "audio_format option"
  opt_last :: "bool option"
  opt_lastIndex :: "int option"
  opt_playCommand :: "string option"
  opt_presetVoice :: "bool option"
  opt_provider :: "provider option"
  opt_speed :: "real option"
  opt_trailingSilence :: "real option"
  opt_streaming :: "bool option"
  opt_instantMode :: "bool option"

text \<open>\<^verbatim>\<open>ConfigData['tts']\<close>, with the \<^verbatim>\<open>instantMode\<close> property that \<^verbatim>\<open>resolveOpts\<close> reads
  from it.\<close>

record TtsConfig =
  cfg_voiceName :: "string option"
  cfg_voiceId :: "string option"
  cfg_description :: "string option"
  cfg_outputDir :: "string option"
  cfg_prefix :: "string option"
  cfg_play :: "play_mode option"
  cfg_format :: "audio_format option"
  cfg_numGenerations :: "int option"
  cfg_last :: "bool option"
  cfg_lastIndex :: "int option"
  cfg_playCommand :: "string option"
  cfg_presetVoice :: "bool option"
  cfg_speed :: "real option"
  cfg_trailingSilence :: "real option"
  cfg_streaming :: "bool option"
  cfg_instantMode :: "bool option"

record ConfigData =
  cfg_tts :: "TtsConfig option"
  cfg_json :: "bool option"
  cfg_pretty :: "bool option"
  cfg_apiKey :: "string option"
  cfg_baseUrl :: "string option"

text \<open>The value returned by \<^verbatim>\<open>resolveOpts\<close>: the raw options (\<^verbatim>\<open>...opts\<close>) with the
  resolved fields written over them.\<close>

record ResolvedOpts =
  res_common :: CommonOpts
  res_text :: string
  res_provider :: "provider option"
  res_description :: "string option"
  res_contextGenerationId :: "string option"
  res_voiceName :: "string option"
  res_voiceId :: "string option"
  res_numGenerations :: int
  res_outputFilePath :: string
  res_outputDir :: string
  res_prefix :: string
  res_play :: play_mode
  res_format :: audio_format
  res_last :: bool
  res_lastIndex :: "int option"
  res_playCommand :: "string option"
  res_presetVoice :: bool
  res_speed :: "real option"
  res_trailingSilence :: "real option"
  res_streaming :: bool
  res_instantMode :: bool

section \<open>Truthiness\<close>

text \<open>JavaScript truthiness of an optional string, number and boolean.\<close>

definition truthy_string :: "string option \<Rightarrow> bool" where
  "truthy_string s = (case s of None \<Rightarrow> False | Some v \<Rightarrow> v \<noteq> [])"

definition truthy_number :: "int option \<Rightarrow> bool" where
  "truthy_number n = (case n of None \<Rightarrow> False | Some v \<Rightarrow> v \<noteq> 0)"

definition truthy_boolean :: "bool option \<Rightarrow> bool" where
  "truthy_boolean b = (case b of None \<Rightarrow> False | Some v \<Rightarrow> v)"

section \<open>The settings cascade: \<^verbatim>\<open>resolveOpts\<close>\<close>

text \<open>\<^verbatim>\<open>mutuallyExclusive(a, b)\<close>: the arguments are the truthiness of \<^verbatim>\<open>opts[a]\<close> and
  \<^verbatim>\<open>opts[b]\<close> and the two names.\<close>

definition mutuallyExclusive :: "bool \<Rightarrow> bool \<Rightarrow> string \<Rightarrow> string \<Rightarrow> error + unit" where
  "mutuallyExclusive a b na nb = (if a \<and> b then Inl (CannotSpecifyBoth na nb) else Inr ())"

record 'a prioritized =
  priority :: nat
  item :: 'a

text \<open>\<^verbatim>\<open>withPriority(priority, item)\<close> is \<^verbatim>\<open>null\<close> for an absent item. The item found at a
  layer has type \<^verbatim>\<open>T\<close> and the default has the type of \<^verbatim>\<open>Tts.defaults[key]\<close>, which is
  \<^verbatim>\<open>T\<close> or \<^verbatim>\<open>T | null\<close>; TypeScript widens the first to the second silently, here the
  widening \<open>up\<close> (\<open>id\<close> or \<open>Some\<close>) is an argument.\<close>

definition withPriority :: "nat \<Rightarrow> ('a \<Rightarrow> 'b) \<Rightarrow> 'a option \<Rightarrow> 'b prioritized option" where
  "withPriority p up x =
     (case x of None \<Rightarrow> None | Some v \<Rightarrow> Some \<lparr>priority = p, item = up v\<rparr>)"

text \<open>\<^verbatim>\<open>session.tts?.[key]\<close>\<close>

definition tts_key :: "ConfigData \<Rightarrow> (TtsConfig \<Rightarrow> 'a option) \<Rightarrow> 'a option" where
  "tts_key c key = (case cfg_tts c of None \<Rightarrow> None | Some t \<Rightarrow> key t)"

text \<open>\<^verbatim>\<open>osgd(key)\<close>, "opts else session else global else defaults". The key is given by
  its two accessors and its entry of \<^verbatim>\<open>Tts.defaults\<close>.\<close>

definition osgd ::
  "SynthesisOpts \<Rightarrow> ConfigData \<Rightarrow> ConfigData \<Rightarrow> (SynthesisOpts \<Rightarrow> 'a option) \<Rightarrow>
   (TtsConfig \<Rightarrow> 'a option) \<Rightarrow> ('a \<Rightarrow> 'b) \<Rightarrow> 'b \<Rightarrow> 'b prioritized" where
  "osgd opts session globalConfig okey ckey up dflt =
     (case withPriority 3 up (okey opts) of Some r \<Rightarrow> r | None \<Rightarrow>
     (case withPriority 2 up (tts_key session ckey) of Some r \<Rightarrow> r | None \<Rightarrow>
     (case withPriority 1 up (tts_key globalConfig ckey) of Some r \<Rightarrow> r | None \<Rightarrow>
        \<lparr>priority = 0, item = dflt\<rparr>)))"

text \<open>\<^verbatim>\<open>od(key)\<close>, "opts else defaults".\<close>

definition od :: "SynthesisOpts \<Rightarrow> (SynthesisOpts \<Rightarrow> 'a option) \<Rightarrow> ('a \<Rightarrow> 'b) \<Rightarrow> 'b \<Rightarrow> 'b prioritized" where
  "od opts okey up dflt =
     (case withPriority 1 up (okey opts) of Some r \<Rightarrow> r | None \<Rightarrow> \<lparr>priority = 0, item = dflt\<rparr>)"

text \<open>The voice override of \<^verbatim>\<open>resolveOpts\<close>. Both \<^verbatim>\<open>voiceName_\<close> and \<^verbatim>\<open>voiceId_\<close> are
  objects, hence truthy, so the test \<^verbatim>\<open>voiceName_ && voiceId_\<close> always succeeds and only
  the comparison of the priorities remains.\<close>

definition voiceOverride ::
  "string option prioritized \<Rightarrow> string option prioritized \<Rightarrow> string option \<times> string option" where
  "voiceOverride voiceName_osgd voiceId_osgd =
     (if priority voiceName_osgd > priority voiceId_osgd then (item voiceName_osgd, None)
      else (None, item voiceId_osgd))"

definition resolveOpts ::
  "(string \<rightharpoonup> string) \<Rightarrow> ConfigData \<Rightarrow> ConfigData \<Rightarrow> SynthesisOpts \<Rightarrow> error + ResolvedOpts" where
  "resolveOpts env globalConfig session opts =
    (case mutuallyExclusive (truthy_string (opt_voiceName opts)) (truthy_string (opt_voiceId opts))
            ''voiceName'' ''voiceId'' of Inl e \<Rightarrow> Inl e | Inr _ \<Rightarrow>
    (case mutuallyExclusive (truthy_string (opt_outputFilePath opts))
            (truthy_number (opt_numGenerations opts))
            ''outputFilePath'' ''numGenerations'' of Inl e \<Rightarrow> Inl e | Inr _ \<Rightarrow>
    (case mutuallyExclusive (truthy_boolean (opt_last opts))
            (truthy_string (opt_contextGenerationId opts))
            ''last'' ''contextGenerationId'' of Inl e \<Rightarrow> Inl e | Inr _ \<Rightarrow>
     (let voiceName_osgd = osgd opts session globalConfig opt_voiceName cfg_voiceName Some None;
          voiceId_osgd = osgd opts session globalConfig opt_voiceId cfg_voiceId Some None;
          (voiceName, voiceId) = voiceOverride voiceName_osgd voiceId_osgd
      in Inr \<lparr>
        res_common = opt_common opts,
        res_text = opt_text opts,
        res_provider = opt_provider opts,
        res_description =
          item (osgd opts session globalConfig opt_description cfg_description Some None),
        res_contextGenerationId = item (od opts opt_contextGenerationId Some None),
        res_voiceName = voiceName,
        res_voiceId = voiceId,
        res_numGenerations =
          item (osgd opts session globalConfig opt_numGenerations cfg_numGenerations id 1),
        res_outputFilePath = item (od opts opt_outputFilePath id ''''),
        res_outputDir =
          item (osgd opts session globalConfig opt_outputDir cfg_outputDir id ''./tts-audio''),
        res_prefix = item (osgd opts session globalConfig opt_prefix cfg_prefix id ''tts-''),
        res_play = item (osgd opts session globalConfig opt_play cfg_play id PlayAll),
        res_format = item (osgd opts session globalConfig opt_format cfg_format id Wav),
        res_last = item (osgd opts session globalConfig opt_last cfg_last id False),
        res_lastIndex =
          item (osgd opts session globalConfig opt_lastIndex cfg_lastIndex Some None),
        res_playCommand =
          item (osgd opts session globalConfig opt_playCommand cfg_playCommand Some None),
        res_presetVoice =
          item (osgd opts session globalConfig opt_presetVoice cfg_presetVoice id False),
        res_speed = item (osgd opts session globalConfig opt_speed cfg_speed Some None),
        res_trailingSilence =
          item (osgd opts session globalConfig opt_trailingSilence cfg_trailingSilence Some None),
        res_streaming =
          item (osgd opts session globalConfig opt_streaming cfg_streaming id True),
        res_instantMode =
          item (osgd opts session globalConfig opt_instantMode cfg_instantMode id False)
      \<rparr>))))"

section \<open>Request building\<close>

text \<open>\<^verbatim>\<open>SynthesisOutputOpts\<close>: \<^verbatim>\<open>{type: 'path', numGenerations: 1, path}\<close> or
  \<^verbatim>\<open>{type: 'dir', numGenerations, dir, prefix, format}\<close>.\<close>

datatype SynthesisOutputOpts =
    PathOut string
  | DirOut int string string audio_format

fun out_numGenerations :: "SynthesisOutputOpts \<Rightarrow> int" where
  "out_numGenerations (PathOut p) = 1"
| "out_numGenerations (DirOut n d p f) = n"

definition calculateOutputOpts :: "ResolvedOpts \<Rightarrow> error + SynthesisOutputOpts" where
  "calculateOutputOpts opts =
     (if res_numGenerations opts > 1 \<and> res_outputFilePath opts \<noteq> [] then
        Inl NumGenerationsAndOutputFilePath
      else if res_outputFilePath opts \<noteq> [] then Inr (PathOut (res_outputFilePath opts))
      else if res_outputDir opts = [] then Inl OutputDirNotSet
      else if res_prefix opts = [] then Inl PrefixNotSet
      else Inr (DirOut (res_numGenerations opts) (res_outputDir opts) (res_prefix opts)
                  (res_format opts)))"

text \<open>The voice reference of an utterance: \<^verbatim>\<open>{name}\<close>, \<^verbatim>\<open>{name, provider}\<close>, \<^verbatim>\<open>{id}\<close> or
  \<^verbatim>\<open>{id, provider}\<close>.\<close>

datatype PostedUtteranceVoice =
    VoiceName string "provider option"
  | VoiceId string "provider option"

record PostedUtterance =
  utt_text :: string
  utt_voice :: "PostedUtteranceVoice option"
  utt_description :: "string option"
  utt_speed :: "real option"
  utt_trailingSilence :: "real option"

text \<open>The argument object of \<^verbatim>\<open>calculateUtterance\<close>.\<close>

record UtteranceOpts =
  u_voiceName :: "string option"
  u_voiceId :: "string option"
  u_text :: string
  u_description :: "string option"
  u_presetVoice :: bool
  u_provider :: "provider option"
  u_speed :: "real option"
  u_trailingSilence :: "real option"

definition calculateUtterance :: "UtteranceOpts \<Rightarrow> PostedUtterance" where
  "calculateUtterance opts =
     (let provider = (if u_provider opts = None \<and> u_presetVoice opts then Some HUME_AI
                      else u_provider opts);
          voice =
            (if truthy_string (u_voiceName opts) then
               (case u_voiceName opts of None \<Rightarrow> None | Some n \<Rightarrow>
                  Some (if provider = Some HUME_AI then VoiceName n (Some HUME_AI)
                        else VoiceName n None))
             else if truthy_string (u_voiceId opts) then
               (case u_voiceId opts of None \<Rightarrow> None | Some i \<Rightarrow>
                  Some (if provider = Some HUME_AI then VoiceId i (Some HUME_AI)
                        else VoiceId i None))
             else None)
      in \<lparr>utt_text = u_text opts,
          utt_voice = voice,
          utt_description =
            (if truthy_string (u_description opts) then u_description opts else None),
          utt_speed = u_speed opts,
          utt_trailingSilence = u_trailingSilence opts\<rparr>)"

record PostedContext =
  ctx_generationId :: "string option"

record PostedTts =
  tts_utterances :: "PostedUtterance list"
  tts_numGenerations :: int
  tts_format :: audio_format
  tts_context :: "PostedContext option"
  tts_instantMode :: "bool option"
  tts_stripHeaders :: "bool option"

section \<open>History and continuation\<close>

record GenerationHistory =
  ids :: "string list"
  timestamp :: int

text \<open>Reading a JavaScript array at a number: \<^verbatim>\<open>undefined\<close> outside \<open>0 .. length - 1\<close>.\<close>

definition js_index :: "'a list \<Rightarrow> int \<Rightarrow> 'a option" where
  "js_index xs k = (if 0 \<le> k \<and> k < int (length xs) then Some (xs ! nat k) else None)"

text \<open>\<^verbatim>\<open>maybeAddContext(opts, tts)\<close>, with the three properties of \<^verbatim>\<open>opts\<close> it reads as
  arguments (\<open>last_flag\<close> is \<^verbatim>\<open>opts.last\<close>), and the value of \<^verbatim>\<open>getLastSynthesis()\<close>.\<close>

definition maybeAddContext ::
  "string option \<Rightarrow> bool \<Rightarrow> int option \<Rightarrow> GenerationHistory option \<Rightarrow> PostedTts \<Rightarrow>
   error + PostedTts" where
  "maybeAddContext contextGenerationId last_flag lastIndex getLastSynthesis tts =
     (if truthy_string contextGenerationId then
        Inr (tts\<lparr>tts_context := Some \<lparr>ctx_generationId = contextGenerationId\<rparr>\<rparr>)
      else if \<not> last_flag then Inr tts
      else
        (case getLastSynthesis of
           None \<Rightarrow> Inl NoPreviousGeneration
         | Some lastSynthesis \<Rightarrow>
            (let nLastGenerations = length (ids lastSynthesis) in
             if nLastGenerations > 1 \<and> lastIndex = None then
               Inl (SpecifyLastIndex nLastGenerations (length (ids lastSynthesis)))
             else if (case lastIndex of None \<Rightarrow> False | Some i \<Rightarrow> i > int nLastGenerations) then
               Inl (SpecifyLastIndex nLastGenerations (length (ids lastSynthesis)))
             else
               Inr (tts\<lparr>tts_context := Some \<lparr>ctx_generationId =
                      js_index (ids lastSynthesis)
                        ((case lastIndex of None \<Rightarrow> 1 | Some i \<Rightarrow> i) - 1)\<rparr>\<rparr>))))"

text \<open>\<^verbatim>\<open>Voices.save\<close> of \<^verbatim>\<open>voices.ts\<close>, up to the body of the request it sends.\<close>

record RawSaveVoiceOpts =
  sv_common :: CommonOpts
  sv_name :: string
  sv_generationId :: "string option"
  sv_last :: "bool option"
  sv_lastIndex :: "int option"

record SaveVoiceBody =
  body_name :: string
  body_generationId :: string

definition Voices_save ::
  "RawSaveVoiceOpts \<Rightarrow> bool \<Rightarrow> GenerationHistory option \<Rightarrow> error + SaveVoiceBody" where
  "Voices_save opts hume getLastSynthesis =
     (if \<not> hume then Inl ApiKeyNotSetError
      else
        (case
           (if truthy_boolean (sv_last opts) then
              (case getLastSynthesis of
                 None \<Rightarrow> Inl NoPreviousGenerationToSave
               | Some lastGeneration \<Rightarrow>
                  (let nLastGenerations = length (ids lastGeneration) in
                   if nLastGenerations > 1 \<and> sv_lastIndex opts = None then
                     Inl (PreviousSynthesisContained nLastGenerations
                            (length (ids lastGeneration)))
                   else if (case sv_lastIndex opts of None \<Rightarrow> False
                            | Some i \<Rightarrow> i < 1 \<or> i > int nLastGenerations) then
                     Inl (SpecifyLastIndexBetween (length (ids lastGeneration)))
                   else
                     Inr (js_index (ids lastGeneration)
                            ((case sv_lastIndex opts of None \<Rightarrow> 1 | Some i \<Rightarrow> i) - 1))))
            else Inr (sv_generationId opts))
         of Inl e \<Rightarrow> Inl e
          | Inr generationId \<Rightarrow>
             (case generationId of
                None \<Rightarrow> Inl MustSpecifyGenerationIdOrLast
              | Some g \<Rightarrow>
                 if g = [] then Inl MustSpecifyGenerationIdOrLast
                 else Inr \<lparr>body_name = sv_name opts, body_generationId = g\<rparr>)))"

section \<open>The collaborators and the effects\<close>

record Snippet =
  snip_generationId :: string
  snip_audio :: string

record ReturnGeneration =
  gen_generationId :: string
  gen_audio :: string

text \<open>The remote service: what the two calls answer to a request. A streaming answer is
  the finite sequence of chunks the channel delivers before it closes.\<close>

record HumeClient =
  synthesizeJson :: "PostedTts \<Rightarrow> ReturnGeneration list"
  synthesizeJsonStreaming :: "PostedTts \<Rightarrow> Snippet list"

text \<open>What the code reads from outside: the process environment, the two configuration
  files, the service, standard input (\<^verbatim>\<open>readStdin()\<close>), the clock (\<^verbatim>\<open>Date.now()\<close>),
  \<^verbatim>\<open>Buffer.from(_, 'base64')\<close>, \<^verbatim>\<open>path.join\<close> and the audio player. \<open>ext_player c\<close> says
  what happens with the player for the custom command \<open>c\<close>: \<^verbatim>\<open>ensureAudioPlayer\<close> finds
  none, \<^verbatim>\<open>ensureStdinSupport\<close> finds that it cannot read standard input, the spawned
  process emits \<^verbatim>\<open>error\<close>, or it closes with an exit code.\<close>

datatype player = NoAudioPlayer | NoStdinSupport | SpawnError | Exits int

record external =
  ext_processEnv :: "string \<rightharpoonup> string"
  ext_readConfigGlobal :: "ConfigData option"
  ext_readConfigSession :: "ConfigData option"
  ext_service :: HumeClient
  ext_readStdin :: string
  ext_now :: int
  ext_base64 :: "string \<Rightarrow> Buffer"
  ext_join :: "string \<Rightarrow> string \<Rightarrow> string"
  ext_player :: "string option \<Rightarrow> player"

datatype remote_call = SynthesizeJson PostedTts | SynthesizeJsonStreaming PostedTts

text \<open>What the code writes: the calls of \<^verbatim>\<open>ensureDirAndWriteFile\<close> in order, the history
  record, the buffers written to the player's standard input, the calls of
  \<^verbatim>\<open>playAudioFile\<close>, and the calls of the remote service. The reporter's messages are
  left out.\<close>

record world =
  w_files :: "(string \<times> Buffer) list"
  w_history :: "GenerationHistory option"
  w_playerStdin :: "Buffer list"
  w_played :: "string list"
  w_remote :: "remote_call list"

record Settings =
  st_env :: "string \<rightharpoonup> string"
  st_globalConfig :: ConfigData
  st_session :: ConfigData
  st_hume :: "HumeClient option"

definition emptyConfig :: ConfigData where
  "emptyConfig = \<lparr>cfg_tts = None, cfg_json = None, cfg_pretty = None, cfg_apiKey = None,
     cfg_baseUrl = None\<rparr>"

definition getSettings :: "external \<Rightarrow> CommonOpts \<Rightarrow> Settings" where
  "getSettings ext opts =
     (let env = ext_processEnv ext;
          globalConfig = (case ext_readConfigGlobal ext of None \<Rightarrow> emptyConfig | Some c \<Rightarrow> c);
          session = (case ext_readConfigSession ext of None \<Rightarrow> emptyConfig | Some c \<Rightarrow> c);
          apiKey =
            (case cfg_apiKey globalConfig of Some k \<Rightarrow> Some k | None \<Rightarrow>
            (case cfg_apiKey session of Some k \<Rightarrow> Some k | None \<Rightarrow>
            (case env ''HUME_API_KEY'' of Some k \<Rightarrow> Some k | None \<Rightarrow> common_apiKey opts)));
          hume = (if truthy_string apiKey then Some (ext_service ext) else None)
      in \<lparr>st_env = env, st_globalConfig = globalConfig, st_session = session, st_hume = hume\<rparr>)"

definition ensureDirAndWriteFile :: "string \<Rightarrow> Buffer \<Rightarrow> world \<Rightarrow> world" where
  "ensureDirAndWriteFile path data w = w\<lparr>w_files := w_files w @ [(path, data)]\<rparr>"

definition saveLastSynthesis :: "GenerationHistory \<Rightarrow> world \<Rightarrow> world" where
  "saveLastSynthesis generation w = w\<lparr>w_history := Some generation\<rparr>"

definition playAudioFile :: "string \<Rightarrow> world \<Rightarrow> world" where
  "playAudioFile path w = w\<lparr>w_played := w_played w @ [path]\<rparr>"

text \<open>\<^verbatim>\<open>withStdinAudioPlayer(customCommand, f)\<close>: \<open>f\<close> receives the function that writes a
  buffer to the player's standard input. The two \<^verbatim>\<open>ensure\<close> checks throw before the
  process is spawned and \<open>f\<close> is called; the \<^verbatim>\<open>error\<close> and \<^verbatim>\<open>close\<close> events of the process are
  awaited after \<open>f\<close> has run.\<close>

definition withStdinAudioPlayer ::
  "external \<Rightarrow> string option \<Rightarrow> ((Buffer \<Rightarrow> world \<Rightarrow> world) \<Rightarrow> world \<Rightarrow> 'r \<times> world) \<Rightarrow> world \<Rightarrow>
   (error + 'r) \<times> world" where
  "withStdinAudioPlayer ext customCommand f w =
     (case ext_player ext customCommand of
        NoAudioPlayer \<Rightarrow> (Inl NoAudioPlayerFound, w)
      | NoStdinSupport \<Rightarrow> (Inl StdinNotSupported, w)
      | SpawnError \<Rightarrow>
         (case f (\<lambda>audioBuffer w'. w'\<lparr>w_playerStdin := w_playerStdin w' @ [audioBuffer]\<rparr>) w of
            (r, w1) \<Rightarrow> (Inl PlayerProcessError, w1))
      | Exits code \<Rightarrow>
         (case f (\<lambda>audioBuffer w'. w'\<lparr>w_playerStdin := w_playerStdin w' @ [audioBuffer]\<rparr>) w of
            (r, w1) \<Rightarrow> (if code = 0 then Inr r else Inl (ProcessExitedWithCode code), w1)))"

section \<open>The streaming driver\<close>

text \<open>\<^verbatim>\<open>Map<string, Array<Buffer>>\<close>: a JavaScript map keeps its keys in insertion order, so
  it is an association list with distinct keys.\<close>

type_synonym GenerationAudio = "(string \<times> Buffer list) list"

definition map_has :: "('k \<times> 'v) list \<Rightarrow> 'k \<Rightarrow> bool" where
  "map_has m k = (k \<in> set (map fst m))"

fun map_set :: "('k \<times> 'v) list \<Rightarrow> 'k \<Rightarrow> 'v \<Rightarrow> ('k \<times> 'v) list" where
  "map_set [] k v = [(k, v)]"
| "map_set ((k', v') # m) k v = (if k' = k then (k, v) # m else (k', v') # map_set m k v)"

text \<open>\<^verbatim>\<open>m.get(k)?.push(b)\<close>\<close>

fun map_push :: "('k \<times> 'v list) list \<Rightarrow> 'k \<Rightarrow> 'v \<Rightarrow> ('k \<times> 'v list) list" where
  "map_push [] k b = []"
| "map_push ((k', bs) # m) k b = (if k' = k then (k', bs @ [b]) # m else (k', bs) # map_push m k b)"

text \<open>The \<^verbatim>\<open>for await\<close> loop of \<^verbatim>\<open>go\<close> over the chunks still to come; its state is
  \<^verbatim>\<open>firstGenerationId\<close>, \<^verbatim>\<open>generationAudio\<close> and the world.\<close>

fun go_loop ::
  "(string \<Rightarrow> Buffer) \<Rightarrow> play_mode \<Rightarrow> (Buffer \<Rightarrow> world \<Rightarrow> world) \<Rightarrow> Snippet list \<Rightarrow>
   string option \<Rightarrow> GenerationAudio \<Rightarrow> world \<Rightarrow> GenerationAudio \<times> world" where
  "go_loop base64 play writeAudio [] firstGenerationId generationAudio w = (generationAudio, w)"
| "go_loop base64 play writeAudio (chunk # chunks) firstGenerationId generationAudio w =
     (let firstGenerationId1 =
            (if \<not> truthy_string firstGenerationId then Some (snip_generationId chunk)
             else firstGenerationId)
      in if snip_audio chunk = [] then
           go_loop base64 play writeAudio chunks firstGenerationId1 generationAudio w
         else
           (let audioBuffer = base64 (snip_audio chunk);
                generationAudio1 =
                  (if \<not> map_has generationAudio (snip_generationId chunk)
                   then map_set generationAudio (snip_generationId chunk) []
                   else generationAudio);
                generationAudio2 = map_push generationAudio1 (snip_generationId chunk) audioBuffer
            in if play = PlayFirst \<and> Some (snip_generationId chunk) \<noteq> firstGenerationId1 then
                 go_loop base64 play writeAudio chunks firstGenerationId1 generationAudio2 w
               else
                 go_loop base64 play writeAudio chunks firstGenerationId1 generationAudio2
                   (writeAudio audioBuffer w)))"

definition go ::
  "external \<Rightarrow> HumeClient \<Rightarrow> PostedTts \<Rightarrow> ResolvedOpts \<Rightarrow> (Buffer \<Rightarrow> world \<Rightarrow> world) \<Rightarrow> world \<Rightarrow>
   GenerationAudio \<times> world" where
  "go ext hume tts opts writeAudio w =
     go_loop (ext_base64 ext) (res_play opts) writeAudio (synthesizeJsonStreaming hume tts)
       None [] (w\<lparr>w_remote := w_remote w @ [SynthesizeJsonStreaming tts]\<rparr>)"

fun format_name :: "audio_format \<Rightarrow> string" where
  "format_name Wav = ''wav''"
| "format_name Mp3 = ''mp3''"
| "format_name Pcm = ''pcm''"

definition fullPath :: "external \<Rightarrow> SynthesisOutputOpts \<Rightarrow> string \<Rightarrow> string" where
  "fullPath ext outputOpts generationId =
     (case outputOpts of
        PathOut path \<Rightarrow> path
      | DirOut n dir pfx format \<Rightarrow>
          ext_join ext dir (pfx @ generationId @ ''.'' @ format_name format))"

text \<open>The loop "Write full generation files" over the entries of \<^verbatim>\<open>generationAudio\<close>; the
  accumulator is \<^verbatim>\<open>writtenFiles\<close>.\<close>

fun writeFullFiles ::
  "external \<Rightarrow> SynthesisOutputOpts \<Rightarrow> GenerationAudio \<Rightarrow> (string \<times> string) list \<Rightarrow> world \<Rightarrow>
   (string \<times> string) list \<times> world" where
  "writeFullFiles ext outputOpts [] writtenFiles w = (writtenFiles, w)"
| "writeFullFiles ext outputOpts ((generationId, audioChunks) # entries) writtenFiles w =
     (let fullAudio = concat audioChunks;
          path = fullPath ext outputOpts generationId
      in writeFullFiles ext outputOpts entries (writtenFiles @ [(generationId, path)])
           (ensureDirAndWriteFile path fullAudio w))"

text \<open>\<^verbatim>\<open>synthesizeStreaming\<close>; the result is the \<^verbatim>\<open>writtenFiles\<close> it reports.\<close>

definition synthesizeStreaming ::
  "external \<Rightarrow> PostedTts \<Rightarrow> HumeClient \<Rightarrow> ResolvedOpts \<Rightarrow> SynthesisOutputOpts \<Rightarrow> world \<Rightarrow>
   (error + (string \<times> string) list) \<times> world" where
  "synthesizeStreaming ext tts hume opts outputOpts w =
     (let tts1 = tts\<lparr>tts_stripHeaders := Some True\<rparr> in
      case (if res_play opts \<noteq> PlayOff
            then withStdinAudioPlayer ext (res_playCommand opts) (go ext hume tts1 opts) w
            else (case go ext hume tts1 opts (\<lambda>audioBuffer w'. w') w of
                    (generationAudio, w1) \<Rightarrow> (Inr generationAudio, w1)))
      of (Inl e, w1) \<Rightarrow> (Inl e, w1)
       | (Inr generationAudio, w1) \<Rightarrow>
          (case writeFullFiles ext outputOpts generationAudio [] w1 of
             (writtenFiles, w2) \<Rightarrow>
               (Inr writtenFiles,
                saveLastSynthesis
                  \<lparr>ids = map fst generationAudio, timestamp = ext_now ext\<rparr> w2)))"

section \<open>The buffered driver\<close>

fun writeDirFiles ::
  "external \<Rightarrow> SynthesisOutputOpts \<Rightarrow> ReturnGeneration list \<Rightarrow> (string \<times> string) list \<Rightarrow> world \<Rightarrow>
   (string \<times> string) list \<times> world" where
  "writeDirFiles ext outputOpts [] paths w = (paths, w)"
| "writeDirFiles ext outputOpts (generation # generations) paths w =
     (let path = fullPath ext outputOpts (gen_generationId generation)
      in writeDirFiles ext outputOpts generations
           (paths @ [(gen_generationId generation, path)])
           (ensureDirAndWriteFile path (ext_base64 ext (gen_audio generation)) w))"

text \<open>\<^verbatim>\<open>writeFiles\<close>. The \<^verbatim>\<open>assert\<close> of \<^verbatim>\<open>node:console\<close> only prints; with no generation the
  read of \<^verbatim>\<open>generation.audio\<close> throws.\<close>

definition writeFiles ::
  "external \<Rightarrow> SynthesisOutputOpts \<Rightarrow> ReturnGeneration list \<Rightarrow> world \<Rightarrow>
   (error + (string \<times> string) list) \<times> world" where
  "writeFiles ext opts generations w =
     (case opts of
        PathOut path \<Rightarrow>
          (case generations of
             [] \<Rightarrow> (Inl TypeError, w)
           | generation # _ \<Rightarrow>
               (Inr [(gen_generationId generation, path)],
                ensureDirAndWriteFile path (ext_base64 ext (gen_audio generation)) w))
      | DirOut n dir pfx format \<Rightarrow>
          (case writeDirFiles ext opts generations [] w of (paths, w1) \<Rightarrow> (Inr paths, w1)))"

definition playAudios :: "play_mode \<Rightarrow> (string \<times> string) list \<Rightarrow> world \<Rightarrow> (error + unit) \<times> world" where
  "playAudios play files w =
     (case play of
        PlayOff \<Rightarrow> (Inr (), w)
      | PlayFirst \<Rightarrow>
          (case files of [] \<Rightarrow> (Inl TypeError, w) | file # _ \<Rightarrow> (Inr (), playAudioFile (snd file) w))
      | PlayAll \<Rightarrow> (Inr (), fold (\<lambda>file. playAudioFile (snd file)) files w))"

definition synthesizeBuffered ::
  "external \<Rightarrow> PostedTts \<Rightarrow> HumeClient \<Rightarrow> ResolvedOpts \<Rightarrow> SynthesisOutputOpts \<Rightarrow> world \<Rightarrow>
   (error + (string \<times> string) list) \<times> world" where
  "synthesizeBuffered ext tts hume opts outputOpts w =
     (let generations = synthesizeJson hume tts;
          w1 = saveLastSynthesis
                 \<lparr>ids = map gen_generationId generations, timestamp = ext_now ext\<rparr>
                 (w\<lparr>w_remote := w_remote w @ [SynthesizeJson tts]\<rparr>)
      in case writeFiles ext outputOpts generations w1 of
           (Inl e, w2) \<Rightarrow> (Inl e, w2)
         | (Inr writtenFiles, w2) \<Rightarrow>
            (case playAudios (res_play opts) writtenFiles w2 of
               (Inl e, w3) \<Rightarrow> (Inl e, w3)
             | (Inr _, w3) \<Rightarrow> (Inr writtenFiles, w3)))"

section \<open>\<^verbatim>\<open>synthesize\<close>\<close>

text \<open>The block "Validate instant_mode requirements" of \<^verbatim>\<open>synthesize\<close>.\<close>

definition validateInstantMode ::
  "ResolvedOpts \<Rightarrow> SynthesisOutputOpts \<Rightarrow> PostedUtterance \<Rightarrow> PostedTts \<Rightarrow> error + PostedTts" where
  "validateInstantMode opts outputOpts utterance tts =
     (if res_instantMode opts then
        (if \<not> res_streaming opts then Inl InstantModeRequiresStreaming
         else if out_numGenerations outputOpts \<noteq> 1 then Inl InstantModeRequiresNumGenerations1
         else if utt_voice utterance = None \<and> tts_context tts = None then
           Inl InstantModeRequiresVoice
         else Inr (tts\<lparr>tts_instantMode := Some True\<rparr>))
      else Inr tts)"

definition utteranceOf :: "ResolvedOpts \<Rightarrow> string \<Rightarrow> PostedUtterance" where
  "utteranceOf opts txt =
     calculateUtterance
       \<lparr>u_voiceName = res_voiceName opts, u_voiceId = res_voiceId opts, u_text = txt,
        u_description = res_description opts, u_presetVoice = res_presetVoice opts,
        u_provider = res_provider opts, u_speed = res_speed opts,
        u_trailingSilence = res_trailingSilence opts\<rparr>"

text \<open>The text that is sent: \<^verbatim>\<open>-\<close> stands for standard input.\<close>

definition inputText :: "external \<Rightarrow> ResolvedOpts \<Rightarrow> string" where
  "inputText ext opts = (if res_text opts = ''-'' then ext_readStdin ext else res_text opts)"

text \<open>The object \<^verbatim>\<open>tts\<close> as \<^verbatim>\<open>synthesize\<close> first builds it.\<close>

definition initialTts :: "PostedUtterance \<Rightarrow> SynthesisOutputOpts \<Rightarrow> ResolvedOpts \<Rightarrow> PostedTts" where
  "initialTts utterance outputOpts opts =
     \<lparr>tts_utterances = [utterance],
      tts_numGenerations = out_numGenerations outputOpts,
      tts_format = res_format opts,
      tts_context = None, tts_instantMode = None, tts_stripHeaders = None\<rparr>"

definition synthesize ::
  "external \<Rightarrow> SynthesisOpts \<Rightarrow> world \<Rightarrow> (error + (string \<times> string) list) \<times> world" where
  "synthesize ext rawOpts w =
     (let settings = getSettings ext (opt_common rawOpts) in
      case resolveOpts (st_env settings) (st_globalConfig settings) (st_session settings) rawOpts of
        Inl e \<Rightarrow> (Inl e, w)
      | Inr opts \<Rightarrow>
     (case calculateOutputOpts opts of
        Inl e \<Rightarrow> (Inl e, w)
      | Inr outputOpts \<Rightarrow>
     (let utterance = utteranceOf opts (inputText ext opts);
          tts = initialTts utterance outputOpts opts
      in case maybeAddContext (res_contextGenerationId opts) (res_last opts) (res_lastIndex opts)
                (w_history w) tts of
           Inl e \<Rightarrow> (Inl e, w)
         | Inr tts1 \<Rightarrow>
        (case validateInstantMode opts outputOpts utterance tts1 of
           Inl e \<Rightarrow> (Inl e, w)
         | Inr tts2 \<Rightarrow>
        (case st_hume settings of
           None \<Rightarrow> (Inl ApiKeyNotSetError, w)
         | Some hume \<Rightarrow>
            if res_streaming opts then synthesizeStreaming ext tts2 hume opts outputOpts w
            else synthesizeBuffered ext tts2 hume opts outputOpts w)))))"

section \<open>The specification's notions\<close>

text \<open>The four-layer cascade as the specification words it: the command-line value when
  present, otherwise the session value, otherwise the global value, otherwise the
  built-in default (which may itself be absent).\<close>

definition spec_cascade :: "'a option \<Rightarrow> 'a option \<Rightarrow> 'a option \<Rightarrow> 'a option \<Rightarrow> 'a option" where
  "spec_cascade cli session global dflt =
     (case cli of Some v \<Rightarrow> Some v | None \<Rightarrow>
     (case session of Some v \<Rightarrow> Some v | None \<Rightarrow>
     (case global of Some v \<Rightarrow> Some v | None \<Rightarrow> dflt)))"

text \<open>The priority of the source a cascaded value comes from: command line 3, session 2,
  global 1, built-in default 0.\<close>

definition spec_priority :: "'a option \<Rightarrow> 'a option \<Rightarrow> 'a option \<Rightarrow> nat" where
  "spec_priority cli session global =
     (if cli \<noteq> None then 3 else if session \<noteq> None then 2 else if global \<noteq> None then 1 else 0)"

text \<open>The provider as the specification resolves it: the explicit flag, otherwise
  \<open>HUME_AI\<close> when the legacy flag is set.\<close>

definition spec_provider :: "provider option \<Rightarrow> bool \<Rightarrow> provider option" where
  "spec_provider explicit presetVoice =
     (case explicit of Some p \<Rightarrow> Some p | None \<Rightarrow> if presetVoice then Some HUME_AI else None)"

text \<open>The distinct elements of a list in the order of their first occurrence.\<close>

fun first_seen :: "'a list \<Rightarrow> 'a list" where
  "first_seen [] = []"
| "first_seen (x # xs) = x # removeAll x (first_seen xs)"

text \<open>The generation ids of a stream that have at least one chunk with audio, and the
  decoded non-empty chunks of one generation in arrival order.\<close>

definition audio_generation_ids :: "Snippet list \<Rightarrow> string list" where
  "audio_generation_ids chunks =
     first_seen (map snip_generationId (filter (\<lambda>c. snip_audio c \<noteq> []) chunks))"

definition observed_generation_ids :: "Snippet list \<Rightarrow> string list" where
  "observed_generation_ids chunks = first_seen (map snip_generationId chunks)"

definition chunks_of :: "(string \<Rightarrow> Buffer) \<Rightarrow> string \<Rightarrow> Snippet list \<Rightarrow> Buffer list" where
  "chunks_of base64 g chunks =
     map (\<lambda>c. base64 (snip_audio c))
       (filter (\<lambda>c. snip_generationId c = g \<and> snip_audio c \<noteq> []) chunks)"

section \<open>Example inputs\<close>

definition noCommon :: CommonOpts where
  "noCommon = \<lparr>common_json = None, common_pretty = None, common_apiKey = None,
     common_debug = None, common_baseUrl = None\<rparr>"

text \<open>Raw options with only the text given.\<close>

definition textOpts :: "string \<Rightarrow> SynthesisOpts" where
  "textOpts t = \<lparr>opt_common = noCommon, opt_text = t, opt_voiceName = None, opt_voiceId = None,
     opt_description = None, opt_contextGenerationId = None, opt_numGenerations = None,
     opt_outputFilePath = None, opt_outputDir = None, opt_prefix = None, opt_play = None,
     opt_format = None, opt_last = None, opt_lastIndex = None, opt_playCommand = None,
     opt_presetVoice = None, opt_provider = None, opt_speed = None, opt_trailingSilence = None,
     opt_streaming = None, opt_instantMode = None\<rparr>"

definition noTts :: TtsConfig where
  "noTts = \<lparr>cfg_voiceName = None, cfg_voiceId = None, cfg_description = None,
     cfg_outputDir = None, cfg_prefix = None, cfg_play = None, cfg_format = None,
     cfg_numGenerations = None, cfg_last = None, cfg_lastIndex = None, cfg_playCommand = None,
     cfg_presetVoice = None, cfg_speed = None, cfg_trailingSilence = None,
     cfg_streaming = None, cfg_instantMode = None\<rparr>"

definition ttsConfig :: "TtsConfig \<Rightarrow> ConfigData" where
  "ttsConfig t = emptyConfig\<lparr>cfg_tts := Some t\<rparr>"

text \<open>What \<^verbatim>\<open>resolveOpts\<close> returns for \<open>textOpts t\<close> and empty configurations: the
  built-in defaults.\<close>

definition defaultResolved :: "string \<Rightarrow> ResolvedOpts" where
  "defaultResolved t = \<lparr>res_common = noCommon, res_text = t, res_provider = None,
     res_description = None, res_contextGenerationId = None, res_voiceName = None,
     res_voiceId = None, res_numGenerations = 1, res_outputFilePath = [],
     res_outputDir = ''./tts-audio'', res_prefix = ''tts-'', res_play = PlayAll,
     res_format = Wav, res_last = False, res_lastIndex = None, res_playCommand = None,
     res_presetVoice = False, res_speed = None, res_trailingSilence = None,
     res_streaming = True, res_instantMode = False\<rparr>"

text \<open>One of the repository's tests: the global configuration names a voice, the session
  another, the command line gives a voice id.\<close>

definition testGlobal :: ConfigData where
  "testGlobal = ttsConfig (noTts\<lparr>cfg_voiceName := Some ''config_voice'',
     cfg_outputDir := Some ''config/output'', cfg_play := Some PlayFirst,
     cfg_format := Some Wav\<rparr>)"

definition testSession :: ConfigData where
  "testSession = ttsConfig (noTts\<lparr>cfg_voiceName := Some ''config_voice_2'',
     cfg_play := Some PlayAll, cfg_format := Some Mp3\<rparr>)"

definition testOpts :: SynthesisOpts where
  "testOpts = (textOpts ''Hello world'')\<lparr>opt_voiceId := Some ''opts_voice'',
     opt_format := Some Pcm\<rparr>"

definition testResolved :: ResolvedOpts where
  "testResolved = (defaultResolved ''Hello world'')\<lparr>res_voiceId := Some ''opts_voice'',
     res_outputDir := ''config/output'', res_format := Pcm\<rparr>"

text \<open>The specification's example: the global configuration sets \<^verbatim>\<open>voiceName\<close>, the
  command line sets \<^verbatim>\<open>voiceId\<close>.\<close>

definition globalVoiceName :: ConfigData where
  "globalVoiceName = ttsConfig (noTts\<lparr>cfg_voiceName := Some ''config_voice''\<rparr>)"

definition cliVoiceId :: SynthesisOpts where
  "cliVoiceId = (textOpts ''Hello world'')\<lparr>opt_voiceId := Some ''opts_voice''\<rparr>"

text \<open>A session configuration that sets both voice fields.\<close>

definition sessionBothVoices :: ConfigData where
  "sessionBothVoices = ttsConfig (noTts\<lparr>cfg_voiceName := Some ''session_voice'',
     cfg_voiceId := Some ''session_id''\<rparr>)"

text \<open>A history record, a request, options of \<^verbatim>\<open>voices save --last\<close> and arguments of
  \<^verbatim>\<open>calculateUtterance\<close>.\<close>

definition historyOf :: "string list \<Rightarrow> GenerationHistory" where
  "historyOf gs = \<lparr>ids = gs, timestamp = 0\<rparr>"

definition exampleTts :: PostedTts where
  "exampleTts = \<lparr>tts_utterances = [\<lparr>utt_text = ''Hi'', utt_voice = None, utt_description = None,
       utt_speed = None, utt_trailingSilence = None\<rparr>],
     tts_numGenerations = 1, tts_format = Wav, tts_context = None, tts_instantMode = None,
     tts_stripHeaders = None\<rparr>"

definition saveLast :: "int \<Rightarrow> RawSaveVoiceOpts" where
  "saveLast i = \<lparr>sv_common = noCommon, sv_name = ''my-voice'', sv_generationId = None,
     sv_last = Some True, sv_lastIndex = Some i\<rparr>"

definition customVoiceOpts :: UtteranceOpts where
  "customVoiceOpts = \<lparr>u_voiceName = Some ''v'', u_voiceId = None, u_text = ''Hi'',
     u_description = None, u_presetVoice = False, u_provider = Some CUSTOM_VOICE,
     u_speed = None, u_trailingSilence = None\<rparr>"

definition presetVoiceOpts :: UtteranceOpts where
  "presetVoiceOpts = \<lparr>u_voiceName = None, u_voiceId = Some ''voice_123'', u_text = ''Hi'',
     u_description = None, u_presetVoice = True, u_provider = None,
     u_speed = None, u_trailingSilence = None\<rparr>"


text \<open>A stand-in for the decoder (the bytes of the characters), collaborators that answer
  a streaming call with the given chunks and whose player exits with code 0, and a world
  in which nothing has happened yet.\<close>

definition charBytes :: "string \<Rightarrow> Buffer" where
  "charBytes s = map of_char s"

definition testExt :: "Snippet list \<Rightarrow> external" where
  "testExt chunks = \<lparr>ext_processEnv = [''HUME_API_KEY'' \<mapsto> ''test-key''],
     ext_readConfigGlobal = None, ext_readConfigSession = None,
     ext_service = \<lparr>synthesizeJson = (\<lambda>tts. []), synthesizeJsonStreaming = (\<lambda>tts. chunks)\<rparr>,
     ext_readStdin = [], ext_now = 1700000000000, ext_base64 = charBytes,
     ext_join = (\<lambda>dir file. dir @ ''/'' @ file), ext_player = (\<lambda>customCommand. Exits 0)\<rparr>"

definition emptyWorld :: world where
  "emptyWorld = \<lparr>w_files = [], w_history = None, w_playerStdin = [], w_played = [],
     w_remote = []\<rparr>"

text \<open>The options of the instant-mode tests and their resolution.\<close>

definition instantOpts :: SynthesisOpts where
  "instantOpts = (textOpts ''Test instant mode'')\<lparr>opt_streaming := Some True,
     opt_instantMode := Some True\<rparr>"

definition instantResolved :: ResolvedOpts where
  "instantResolved = (defaultResolved ''Test instant mode'')\<lparr>res_instantMode := True\<rparr>"


text \<open>Instant mode with \<^verbatim>\<open>--last --last-index 0\<close> and no voice, a world whose history holds
  one generation id, the options as resolved, and the request with neither a voice nor a
  generation id.\<close>

definition instantLastIndex0 :: SynthesisOpts where
  "instantLastIndex0 = (textOpts ''Hello'')\<lparr>opt_instantMode := Some True,
     opt_last := Some True, opt_lastIndex := Some 0\<rparr>"

definition instantLastResolved :: ResolvedOpts where
  "instantLastResolved = (defaultResolved ''Hello'')\<lparr>res_last := True,
     res_lastIndex := Some 0, res_instantMode := True\<rparr>"

definition historyWorld :: world where
  "historyWorld = emptyWorld\<lparr>w_history := Some (historyOf [''gen_1''])\<rparr>"

definition requestWithoutReference :: PostedTts where
  "requestWithoutReference =
     \<lparr>tts_utterances = [\<lparr>utt_text = ''Hello'', utt_voice = None, utt_description = None,
        utt_speed = None, utt_trailingSilence = None\<rparr>],
      tts_numGenerations = 1, tts_format = Wav,
      tts_context = Some \<lparr>ctx_generationId = None\<rparr>,
      tts_instantMode = Some True, tts_stripHeaders = Some True\<rparr>"

text \<open>Streams: two chunks of one generation, a generation with an empty chunk in the
  middle, and a generation whose only chunk is empty; the resolved options and the output
  plan of the streaming tests.\<close>

definition snippy :: "string \<Rightarrow> string \<Rightarrow> Snippet" where
  "snippy g a = \<lparr>snip_generationId = g, snip_audio = a\<rparr>"

definition streamResolved :: ResolvedOpts where
  "streamResolved = (defaultResolved ''Test streaming synthesis'')\<lparr>
     res_outputDir := ''stream/output'', res_prefix := ''stream-''\<rparr>"

definition streamOut :: SynthesisOutputOpts where
  "streamOut = DirOut 1 ''stream/output'' ''stream-'' Wav"

definition twoChunks :: "Snippet list" where
  "twoChunks = [snippy ''gen_1'' ''audio_1_0'', snippy ''gen_1'' ''audio_1_1'']"

definition gappedChunks :: "Snippet list" where
  "gappedChunks = [snippy ''gen_1'' ''audio1'', snippy ''gen_1'' [], snippy ''gen_1'' ''audio3'']"

definition silentGeneration :: "Snippet list" where
  "silentGeneration = [snippy ''gen_1'' ''audio_1_0'', snippy ''gen_2'' []]"

section \<open>The cascade: what \<^verbatim>\<open>resolveOpts\<close> returns\<close>

lemmas example_defs = globalVoiceName_def cliVoiceId_def textOpts_def noTts_def ttsConfig_def
  emptyConfig_def defaultResolved_def testGlobal_def testSession_def testOpts_def
  testResolved_def noCommon_def sessionBothVoices_def instantOpts_def instantResolved_def

lemmas resolve_defs = resolveOpts_def mutuallyExclusive_def truthy_string_def truthy_number_def
  truthy_boolean_def osgd_def od_def withPriority_def tts_key_def voiceOverride_def

lemma osgd_item_id:
  "Some (item (osgd opts s g okey ckey id d)) =
     spec_cascade (okey opts) (tts_key s ckey) (tts_key g ckey) (Some d)"
  by (simp add: osgd_def withPriority_def spec_cascade_def split: option.splits)

lemma osgd_item_Some:
  "item (osgd opts s g okey ckey Some None) =
     spec_cascade (okey opts) (tts_key s ckey) (tts_key g ckey) None"
  by (simp add: osgd_def withPriority_def spec_cascade_def split: option.splits)

lemma osgd_priority:
  "priority (osgd opts s g okey ckey up d) =
     spec_priority (okey opts) (tts_key s ckey) (tts_key g ckey)"
  by (simp add: osgd_def withPriority_def spec_priority_def split: option.splits)

lemma resolveOpts_Inr:
  assumes "resolveOpts env g s opts = Inr r"
  shows "r = \<lparr>
        res_common = opt_common opts,
        res_text = opt_text opts,
        res_provider = opt_provider opts,
        res_description =
          item (osgd opts s g opt_description cfg_description Some None),
        res_contextGenerationId = item (od opts opt_contextGenerationId Some None),
        res_voiceName = fst (voiceOverride (osgd opts s g opt_voiceName cfg_voiceName Some None)
            (osgd opts s g opt_voiceId cfg_voiceId Some None)),
        res_voiceId = snd (voiceOverride (osgd opts s g opt_voiceName cfg_voiceName Some None)
            (osgd opts s g opt_voiceId cfg_voiceId Some None)),
        res_numGenerations =
          item (osgd opts s g opt_numGenerations cfg_numGenerations id 1),
        res_outputFilePath = item (od opts opt_outputFilePath id ''''),
        res_outputDir =
          item (osgd opts s g opt_outputDir cfg_outputDir id ''./tts-audio''),
        res_prefix = item (osgd opts s g opt_prefix cfg_prefix id ''tts-''),
        res_play = item (osgd opts s g opt_play cfg_play id PlayAll),
        res_format = item (osgd opts s g opt_format cfg_format id Wav),
        res_last = item (osgd opts s g opt_last cfg_last id False),
        res_lastIndex =
          item (osgd opts s g opt_lastIndex cfg_lastIndex Some None),
        res_playCommand =
          item (osgd opts s g opt_playCommand cfg_playCommand Some None),
        res_presetVoice =
          item (osgd opts s g opt_presetVoice cfg_presetVoice id False),
        res_speed = item (osgd opts s g opt_speed cfg_speed Some None),
        res_trailingSilence =
          item (osgd opts s g opt_trailingSilence cfg_trailingSilence Some None),
        res_streaming =
          item (osgd opts s g opt_streaming cfg_streaming id True),
        res_instantMode =
          item (osgd opts s g opt_instantMode cfg_instantMode id False)
      \<rparr>"
  using assms
  by (simp add: resolveOpts_def Let_def split: sum.splits prod.splits)

lemma resolved_voice:
  assumes "resolveOpts env g s opts = Inr r"
  shows "res_voiceName r =
           (if spec_priority (opt_voiceName opts) (tts_key s cfg_voiceName) (tts_key g cfg_voiceName)
                > spec_priority (opt_voiceId opts) (tts_key s cfg_voiceId) (tts_key g cfg_voiceId)
            then spec_cascade (opt_voiceName opts) (tts_key s cfg_voiceName)
                   (tts_key g cfg_voiceName) None
            else None)"
    and "res_voiceId r =
           (if spec_priority (opt_voiceName opts) (tts_key s cfg_voiceName) (tts_key g cfg_voiceName)
                > spec_priority (opt_voiceId opts) (tts_key s cfg_voiceId) (tts_key g cfg_voiceId)
            then None
            else spec_cascade (opt_voiceId opts) (tts_key s cfg_voiceId)
                   (tts_key g cfg_voiceId) None)"
  by (simp_all add: resolveOpts_Inr[OF assms] voiceOverride_def osgd_priority osgd_item_Some)

text \<open>
  Claim C1, as amended. When \<^verbatim>\<open>resolveOpts\<close> returns, each of the fourteen cascading
  fields other than the two voice fields is the command-line value when present,
  otherwise the session value, otherwise the global value, otherwise the built-in
  default; an absent (\<^verbatim>\<open>null\<close> or \<^verbatim>\<open>undefined\<close>) value falls through. The two voice
  fields are cascaded in the same way, and then only one is kept: \<^verbatim>\<open>voiceName\<close> keeps
  its cascaded value when its source has strictly higher priority than the source of
  \<^verbatim>\<open>voiceId\<close> and is \<^verbatim>\<open>null\<close> otherwise; \<^verbatim>\<open>voiceId\<close> is \<^verbatim>\<open>null\<close> in the first case and
  keeps its cascaded value otherwise.
\<close>

theorem resolveOpts_cascade:
  assumes "resolveOpts env g s opts = Inr r"
  shows "res_description r =
           spec_cascade (opt_description opts) (tts_key s cfg_description)
             (tts_key g cfg_description) None
       \<and> Some (res_numGenerations r) =
           spec_cascade (opt_numGenerations opts) (tts_key s cfg_numGenerations)
             (tts_key g cfg_numGenerations) (Some 1)
       \<and> Some (res_outputDir r) =
           spec_cascade (opt_outputDir opts) (tts_key s cfg_outputDir)
             (tts_key g cfg_outputDir) (Some ''./tts-audio'')
       \<and> Some (res_prefix r) =
           spec_cascade (opt_prefix opts) (tts_key s cfg_prefix) (tts_key g cfg_prefix)
             (Some ''tts-'')
       \<and> Some (res_play r) =
           spec_cascade (opt_play opts) (tts_key s cfg_play) (tts_key g cfg_play) (Some PlayAll)
       \<and> Some (res_format r) =
           spec_cascade (opt_format opts) (tts_key s cfg_format) (tts_key g cfg_format) (Some Wav)
       \<and> Some (res_last r) =
           spec_cascade (opt_last opts) (tts_key s cfg_last) (tts_key g cfg_last) (Some False)
       \<and> res_lastIndex r =
           spec_cascade (opt_lastIndex opts) (tts_key s cfg_lastIndex) (tts_key g cfg_lastIndex)
             None
       \<and> res_playCommand r =
           spec_cascade (opt_playCommand opts) (tts_key s cfg_playCommand)
             (tts_key g cfg_playCommand) None
       \<and> Some (res_presetVoice r) =
           spec_cascade (opt_presetVoice opts) (tts_key s cfg_presetVoice)
             (tts_key g cfg_presetVoice) (Some False)
       \<and> res_speed r =
           spec_cascade (opt_speed opts) (tts_key s cfg_speed) (tts_key g cfg_speed) None
       \<and> res_trailingSilence r =
           spec_cascade (opt_trailingSilence opts) (tts_key s cfg_trailingSilence)
             (tts_key g cfg_trailingSilence) None
       \<and> Some (res_streaming r) =
           spec_cascade (opt_streaming opts) (tts_key s cfg_streaming) (tts_key g cfg_streaming)
             (Some True)
       \<and> Some (res_instantMode r) =
           spec_cascade (opt_instantMode opts) (tts_key s cfg_instantMode)
             (tts_key g cfg_instantMode) (Some False)
       \<and> res_voiceName r =
           (if spec_priority (opt_voiceName opts) (tts_key s cfg_voiceName) (tts_key g cfg_voiceName)
                > spec_priority (opt_voiceId opts) (tts_key s cfg_voiceId) (tts_key g cfg_voiceId)
            then spec_cascade (opt_voiceName opts) (tts_key s cfg_voiceName)
                   (tts_key g cfg_voiceName) None
            else None)
       \<and> res_voiceId r =
           (if spec_priority (opt_voiceName opts) (tts_key s cfg_voiceName) (tts_key g cfg_voiceName)
                > spec_priority (opt_voiceId opts) (tts_key s cfg_voiceId) (tts_key g cfg_voiceId)
            then None
            else spec_cascade (opt_voiceId opts) (tts_key s cfg_voiceId)
                   (tts_key g cfg_voiceId) None)"
proof -
  note r = resolveOpts_Inr[OF assms]
  have "res_description r = item (osgd opts s g opt_description cfg_description Some None)"
    by (subst r) simp
  moreover have "res_numGenerations r = item (osgd opts s g opt_numGenerations cfg_numGenerations id 1)"
    by (subst r) simp
  moreover have "res_outputDir r = item (osgd opts s g opt_outputDir cfg_outputDir id ''./tts-audio'')"
    by (subst r) simp
  moreover have "res_prefix r = item (osgd opts s g opt_prefix cfg_prefix id ''tts-'')"
    by (subst r) simp
  moreover have "res_play r = item (osgd opts s g opt_play cfg_play id PlayAll)"
    by (subst r) simp
  moreover have "res_format r = item (osgd opts s g opt_format cfg_format id Wav)"
    by (subst r) simp
  moreover have "res_last r = item (osgd opts s g opt_last cfg_last id False)"
    by (subst r) simp
  moreover have "res_lastIndex r = item (osgd opts s g opt_lastIndex cfg_lastIndex Some None)"
    by (subst r) simp
  moreover have "res_playCommand r = item (osgd opts s g opt_playCommand cfg_playCommand Some None)"
    by (subst r) simp
  moreover have "res_presetVoice r = item (osgd opts s g opt_presetVoice cfg_presetVoice id False)"
    by (subst r) simp
  moreover have "res_speed r = item (osgd opts s g opt_speed cfg_speed Some None)"
    by (subst r) simp
  moreover have "res_trailingSilence r =
      item (osgd opts s g opt_trailingSilence cfg_trailingSilence Some None)"
    by (subst r) simp
  moreover have "res_streaming r = item (osgd opts s g opt_streaming cfg_streaming id True)"
    by (subst r) simp
  moreover have "res_instantMode r = item (osgd opts s g opt_instantMode cfg_instantMode id False)"
    by (subst r) simp
  ultimately show ?thesis
    using resolved_voice[OF assms]
    by (simp only: osgd_item_id osgd_item_Some simp_thms)
qed

text \<open>The resolution of the specification's example.\<close>

lemma resolve_example:
  "resolveOpts Map.empty globalVoiceName emptyConfig cliVoiceId =
     Inr ((defaultResolved ''Hello world'')\<lparr>res_voiceId := Some ''opts_voice''\<rparr>)"
  by (simp add: resolveOpts_def mutuallyExclusive_def truthy_string_def truthy_number_def
      truthy_boolean_def osgd_def od_def withPriority_def tts_key_def voiceOverride_def
      globalVoiceName_def cliVoiceId_def textOpts_def noTts_def ttsConfig_def emptyConfig_def
      defaultResolved_def)

text \<open>
  Claim C1 as stated fails for \<^verbatim>\<open>voiceName\<close>: with \<^verbatim>\<open>voiceName\<close> in the global
  configuration and \<^verbatim>\<open>voiceId\<close> on the command line, the cascade of \<^verbatim>\<open>voiceName\<close> gives
  the global value, and the resolved \<^verbatim>\<open>voiceName\<close> is \<^verbatim>\<open>null\<close>.
\<close>

theorem resolveOpts_cascade_counterexample:
  "resolveOpts Map.empty globalVoiceName emptyConfig cliVoiceId =
     Inr ((defaultResolved ''Hello world'')\<lparr>res_voiceId := Some ''opts_voice''\<rparr>)
   \<and> res_voiceName ((defaultResolved ''Hello world'')\<lparr>res_voiceId := Some ''opts_voice''\<rparr>) = None
   \<and> spec_cascade (opt_voiceName cliVoiceId) (tts_key emptyConfig cfg_voiceName)
        (tts_key globalVoiceName cfg_voiceName) None = Some ''config_voice''"
  by (simp add: resolve_example)
    (simp add: spec_cascade_def tts_key_def globalVoiceName_def cliVoiceId_def textOpts_def
      noTts_def ttsConfig_def emptyConfig_def defaultResolved_def)


lemma resolve_test:
  "resolveOpts Map.empty testGlobal testSession testOpts = Inr testResolved"
  by (simp add: resolve_defs example_defs)

theorem resolveOpts_cascade_witness:
  "resolveOpts Map.empty testGlobal testSession testOpts = Inr testResolved
   \<and> res_format testResolved = Pcm \<and> res_play testResolved = PlayAll
   \<and> res_outputDir testResolved = ''config/output'' \<and> res_prefix testResolved = ''tts-''
   \<and> res_voiceId testResolved = Some ''opts_voice'' \<and> res_voiceName testResolved = None"
proof -
  have h: "resolveOpts Map.empty testGlobal testSession testOpts = Inr testResolved"
    by (rule resolve_test)
  from resolveOpts_cascade[OF h]
  have "res_format testResolved = Pcm \<and> res_play testResolved = PlayAll
   \<and> res_outputDir testResolved = ''config/output'' \<and> res_prefix testResolved = ''tts-''
   \<and> res_voiceId testResolved = Some ''opts_voice'' \<and> res_voiceName testResolved = None"
    by (simp add: spec_cascade_def spec_priority_def tts_key_def testGlobal_def testSession_def
        testOpts_def textOpts_def noTts_def ttsConfig_def emptyConfig_def)
  with h show ?thesis by simp
qed

text \<open>
  Claim C2. When \<^verbatim>\<open>voiceName\<close> and \<^verbatim>\<open>voiceId\<close> both cascade to non-null values from
  sources of different priority, the one from the source of strictly higher priority
  survives resolution and the other is \<^verbatim>\<open>null\<close>.
\<close>

theorem voice_higher_priority_wins:
  assumes "resolveOpts env g s opts = Inr r"
    and "spec_cascade (opt_voiceName opts) (tts_key s cfg_voiceName) (tts_key g cfg_voiceName)
           None = Some n"
    and "spec_cascade (opt_voiceId opts) (tts_key s cfg_voiceId) (tts_key g cfg_voiceId)
           None = Some i"
    and "spec_priority (opt_voiceName opts) (tts_key s cfg_voiceName) (tts_key g cfg_voiceName)
           \<noteq> spec_priority (opt_voiceId opts) (tts_key s cfg_voiceId) (tts_key g cfg_voiceId)"
  shows "if spec_priority (opt_voiceName opts) (tts_key s cfg_voiceName) (tts_key g cfg_voiceName)
            > spec_priority (opt_voiceId opts) (tts_key s cfg_voiceId) (tts_key g cfg_voiceId)
         then res_voiceName r = Some n \<and> res_voiceId r = None
         else res_voiceId r = Some i \<and> res_voiceName r = None"
  using resolved_voice[OF assms(1)] assms(2,3) by simp

theorem voice_higher_priority_wins_witness:
  "resolveOpts Map.empty globalVoiceName emptyConfig cliVoiceId =
     Inr ((defaultResolved ''Hello world'')\<lparr>res_voiceId := Some ''opts_voice''\<rparr>)
   \<and> spec_cascade (opt_voiceName cliVoiceId) (tts_key emptyConfig cfg_voiceName)
        (tts_key globalVoiceName cfg_voiceName) None = Some ''config_voice''
   \<and> spec_cascade (opt_voiceId cliVoiceId) (tts_key emptyConfig cfg_voiceId)
        (tts_key globalVoiceName cfg_voiceId) None = Some ''opts_voice''
   \<and> spec_priority (opt_voiceName cliVoiceId) (tts_key emptyConfig cfg_voiceName)
        (tts_key globalVoiceName cfg_voiceName) = 1
   \<and> spec_priority (opt_voiceId cliVoiceId) (tts_key emptyConfig cfg_voiceId)
        (tts_key globalVoiceName cfg_voiceId) = 3
   \<and> res_voiceId ((defaultResolved ''Hello world'')\<lparr>res_voiceId := Some ''opts_voice''\<rparr>)
        = Some ''opts_voice''
   \<and> res_voiceName ((defaultResolved ''Hello world'')\<lparr>res_voiceId := Some ''opts_voice''\<rparr>)
        = None"
proof -
  have h2: "spec_cascade (opt_voiceName cliVoiceId) (tts_key emptyConfig cfg_voiceName)
        (tts_key globalVoiceName cfg_voiceName) None = Some ''config_voice''"
    by (simp add: spec_cascade_def tts_key_def example_defs)
  have h3: "spec_cascade (opt_voiceId cliVoiceId) (tts_key emptyConfig cfg_voiceId)
        (tts_key globalVoiceName cfg_voiceId) None = Some ''opts_voice''"
    by (simp add: spec_cascade_def tts_key_def example_defs)
  have p1: "spec_priority (opt_voiceName cliVoiceId) (tts_key emptyConfig cfg_voiceName)
        (tts_key globalVoiceName cfg_voiceName) = 1"
    by (simp add: spec_priority_def tts_key_def example_defs)
  have p3: "spec_priority (opt_voiceId cliVoiceId) (tts_key emptyConfig cfg_voiceId)
        (tts_key globalVoiceName cfg_voiceId) = 3"
    by (simp add: spec_priority_def tts_key_def example_defs)
  have h4: "spec_priority (opt_voiceName cliVoiceId) (tts_key emptyConfig cfg_voiceName)
        (tts_key globalVoiceName cfg_voiceName)
      \<noteq> spec_priority (opt_voiceId cliVoiceId) (tts_key emptyConfig cfg_voiceId)
        (tts_key globalVoiceName cfg_voiceId)"
    by (simp add: p1 p3)
  from voice_higher_priority_wins[OF resolve_example h2 h3 h4]
  show ?thesis
    by (simp add: resolve_example h2 h3 p1 p3)
qed

text \<open>
  Claim C9. The resolved options never have both \<^verbatim>\<open>voiceName\<close> and \<^verbatim>\<open>voiceId\<close>
  non-null; when the two sources have equal priority, \<^verbatim>\<open>voiceId\<close> keeps its cascaded
  value and \<^verbatim>\<open>voiceName\<close> is \<^verbatim>\<open>null\<close>.
\<close>

theorem voice_never_both:
  assumes "resolveOpts env g s opts = Inr r"
  shows "(res_voiceName r = None \<or> res_voiceId r = None)
       \<and> (spec_priority (opt_voiceName opts) (tts_key s cfg_voiceName) (tts_key g cfg_voiceName)
            = spec_priority (opt_voiceId opts) (tts_key s cfg_voiceId) (tts_key g cfg_voiceId)
          \<longrightarrow> res_voiceName r = None
            \<and> res_voiceId r = spec_cascade (opt_voiceId opts) (tts_key s cfg_voiceId)
                (tts_key g cfg_voiceId) None)"
  using resolved_voice[OF assms] by simp

lemma resolve_both:
  "resolveOpts Map.empty emptyConfig sessionBothVoices (textOpts ''Hi'') =
     Inr ((defaultResolved ''Hi'')\<lparr>res_voiceId := Some ''session_id''\<rparr>)"
  by (simp add: resolve_defs example_defs)

theorem voice_never_both_witness:
  "resolveOpts Map.empty emptyConfig sessionBothVoices (textOpts ''Hi'') =
     Inr ((defaultResolved ''Hi'')\<lparr>res_voiceId := Some ''session_id''\<rparr>)
   \<and> spec_cascade (opt_voiceName (textOpts ''Hi'')) (tts_key sessionBothVoices cfg_voiceName)
        (tts_key emptyConfig cfg_voiceName) None = Some ''session_voice''
   \<and> spec_priority (opt_voiceName (textOpts ''Hi'')) (tts_key sessionBothVoices cfg_voiceName)
        (tts_key emptyConfig cfg_voiceName) = 2
   \<and> spec_priority (opt_voiceId (textOpts ''Hi'')) (tts_key sessionBothVoices cfg_voiceId)
        (tts_key emptyConfig cfg_voiceId) = 2
   \<and> res_voiceName ((defaultResolved ''Hi'')\<lparr>res_voiceId := Some ''session_id''\<rparr>) = None
   \<and> res_voiceId ((defaultResolved ''Hi'')\<lparr>res_voiceId := Some ''session_id''\<rparr>)
        = Some ''session_id''"
proof -
  have p: "spec_priority (opt_voiceName (textOpts ''Hi'')) (tts_key sessionBothVoices cfg_voiceName)
        (tts_key emptyConfig cfg_voiceName) = 2"
     "spec_priority (opt_voiceId (textOpts ''Hi'')) (tts_key sessionBothVoices cfg_voiceId)
        (tts_key emptyConfig cfg_voiceId) = 2"
    by (simp_all add: spec_priority_def tts_key_def example_defs)
  have c: "spec_cascade (opt_voiceName (textOpts ''Hi'')) (tts_key sessionBothVoices cfg_voiceName)
        (tts_key emptyConfig cfg_voiceName) None = Some ''session_voice''"
     "spec_cascade (opt_voiceId (textOpts ''Hi'')) (tts_key sessionBothVoices cfg_voiceId)
        (tts_key emptyConfig cfg_voiceId) None = Some ''session_id''"
    by (simp_all add: spec_cascade_def tts_key_def example_defs)
  from voice_never_both[OF resolve_both]
  show ?thesis
    by (simp add: resolve_both p c)
qed

section \<open>Continuation\<close>

text \<open>
  Claim C6. With \<^verbatim>\<open>last\<close> true and no \<^verbatim>\<open>contextGenerationId\<close> set, \<^verbatim>\<open>maybeAddContext\<close>
  fails when there is no history record; with a history of \<open>N\<close> ids it fails when
  \<open>N > 1\<close> and no \<^verbatim>\<open>lastIndex\<close> is given, and when a given \<^verbatim>\<open>lastIndex\<close> exceeds \<open>N\<close>, the
  message naming the range 1 to \<open>N\<close>; otherwise the context generation id is
  \<^verbatim>\<open>ids[lastIndex - 1]\<close>, which is the \<^verbatim>\<open>lastIndex\<close>-th id for \<open>1 \<le> lastIndex \<le> N\<close>, and
  the only id when \<open>N = 1\<close> and no \<^verbatim>\<open>lastIndex\<close> is given.
\<close>

theorem continuation_resolver:
  assumes "\<not> truthy_string contextGenerationId"
  shows "maybeAddContext contextGenerationId True lastIndex None tts = Inl NoPreviousGeneration
     \<and> (length (ids h) > 1 \<longrightarrow>
          maybeAddContext contextGenerationId True None (Some h) tts =
            Inl (SpecifyLastIndex (length (ids h)) (length (ids h))))
     \<and> (i > int (length (ids h)) \<longrightarrow>
          maybeAddContext contextGenerationId True (Some i) (Some h) tts =
            Inl (SpecifyLastIndex (length (ids h)) (length (ids h))))
     \<and> (i \<le> int (length (ids h)) \<longrightarrow>
          maybeAddContext contextGenerationId True (Some i) (Some h) tts =
            Inr (tts\<lparr>tts_context := Some \<lparr>ctx_generationId = js_index (ids h) (i - 1)\<rparr>\<rparr>))
     \<and> (1 \<le> i \<and> i \<le> int (length (ids h)) \<longrightarrow>
          js_index (ids h) (i - 1) = Some (ids h ! nat (i - 1)))
     \<and> (length (ids h) = 1 \<longrightarrow>
          maybeAddContext contextGenerationId True None (Some h) tts =
            Inr (tts\<lparr>tts_context := Some \<lparr>ctx_generationId = Some (ids h ! 0)\<rparr>\<rparr>))"
  using assms by (simp add: maybeAddContext_def js_index_def Let_def)

theorem continuation_resolver_witness:
  "\<not> truthy_string None
   \<and> maybeAddContext None True None None exampleTts = Inl NoPreviousGeneration
   \<and> maybeAddContext None True None (Some (historyOf [''gen_1'', ''gen_2''])) exampleTts =
       Inl (SpecifyLastIndex 2 2)
   \<and> maybeAddContext None True (Some 3) (Some (historyOf [''gen_1'', ''gen_2''])) exampleTts =
       Inl (SpecifyLastIndex 2 2)
   \<and> maybeAddContext None True (Some 2) (Some (historyOf [''gen_1'', ''gen_2'', ''gen_3'']))
        exampleTts =
       Inr (exampleTts\<lparr>tts_context := Some \<lparr>ctx_generationId = Some ''gen_2''\<rparr>\<rparr>)
   \<and> maybeAddContext None True None (Some (historyOf [''gen_1''])) exampleTts =
       Inr (exampleTts\<lparr>tts_context := Some \<lparr>ctx_generationId = Some ''gen_1''\<rparr>\<rparr>)"
proof -
  have n: "\<not> truthy_string None" by (simp add: truthy_string_def)
  from continuation_resolver[OF n, where lastIndex = None and tts = exampleTts
      and h = "historyOf [''gen_1'', ''gen_2'']" and i = 3]
    continuation_resolver[OF n, where lastIndex = None and tts = exampleTts
      and h = "historyOf [''gen_1'', ''gen_2'', ''gen_3'']" and i = 2]
    continuation_resolver[OF n, where lastIndex = None and tts = exampleTts
      and h = "historyOf [''gen_1'']" and i = 1]
  show ?thesis
    using n by (simp add: historyOf_def)
qed

text \<open>
  Claim C10. \<^verbatim>\<open>maybeAddContext\<close> checks a given \<^verbatim>\<open>lastIndex\<close> against the upper bound
  only: above \<open>N\<close> it raises the range error, below 1 it passes and the lookup
  \<^verbatim>\<open>ids[lastIndex - 1]\<close> is out of bounds, so the context carries no generation id;
  \<^verbatim>\<open>Voices.save\<close> rejects every \<^verbatim>\<open>lastIndex\<close> below 1.
\<close>

theorem lastIndex_lower_bound_unchecked:
  assumes "\<not> truthy_string contextGenerationId"
  shows "(i > int (length (ids h)) \<longrightarrow>
          maybeAddContext contextGenerationId True (Some i) (Some h) tts =
            Inl (SpecifyLastIndex (length (ids h)) (length (ids h))))
     \<and> (i < 1 \<longrightarrow>
          maybeAddContext contextGenerationId True (Some i) (Some h) tts =
            Inr (tts\<lparr>tts_context := Some \<lparr>ctx_generationId = None\<rparr>\<rparr>))
     \<and> (i < 1 \<longrightarrow>
          Voices_save (opts\<lparr>sv_last := Some True, sv_lastIndex := Some i\<rparr>) True (Some h) =
            Inl (SpecifyLastIndexBetween (length (ids h))))"
  using assms
  by (simp add: maybeAddContext_def js_index_def Voices_save_def truthy_boolean_def Let_def)

theorem lastIndex_lower_bound_unchecked_witness:
  "\<not> truthy_string None
   \<and> maybeAddContext None True (Some 3) (Some (historyOf [''gen_1'', ''gen_2''])) exampleTts =
       Inl (SpecifyLastIndex 2 2)
   \<and> maybeAddContext None True (Some 0) (Some (historyOf [''gen_1'', ''gen_2''])) exampleTts =
       Inr (exampleTts\<lparr>tts_context := Some \<lparr>ctx_generationId = None\<rparr>\<rparr>)
   \<and> maybeAddContext None True (Some (- 1)) (Some (historyOf [''gen_1'', ''gen_2''])) exampleTts =
       Inr (exampleTts\<lparr>tts_context := Some \<lparr>ctx_generationId = None\<rparr>\<rparr>)
   \<and> Voices_save (saveLast 0) True (Some (historyOf [''gen_1'', ''gen_2''])) =
       Inl (SpecifyLastIndexBetween 2)"
proof -
  have n: "\<not> truthy_string None" by (simp add: truthy_string_def)
  have s: "saveLast 0 = (saveLast 0)\<lparr>sv_last := Some True, sv_lastIndex := Some 0\<rparr>"
    by (simp add: saveLast_def)
  from lastIndex_lower_bound_unchecked[OF n, where i = 3 and h = "historyOf [''gen_1'', ''gen_2'']"
      and tts = exampleTts]
    lastIndex_lower_bound_unchecked[OF n, where i = 0 and h = "historyOf [''gen_1'', ''gen_2'']"
      and tts = exampleTts and opts = "saveLast 0"]
    lastIndex_lower_bound_unchecked[OF n, where i = "- 1" and h = "historyOf [''gen_1'', ''gen_2'']"
      and tts = exampleTts]
  show ?thesis
    using n s by (simp add: historyOf_def)
qed

section \<open>The utterance\<close>

text \<open>
  Claim C8, as amended. A non-empty \<^verbatim>\<open>voiceName\<close> yields the voice reference \<^verbatim>\<open>{name}\<close>,
  otherwise a non-empty \<^verbatim>\<open>voiceId\<close> yields \<^verbatim>\<open>{id}\<close>, otherwise there is no voice
  reference. The provider is the explicit flag, otherwise \<open>HUME_AI\<close> when the legacy
  \<^verbatim>\<open>presetVoice\<close> flag is set; it is added to the voice reference only when it is
  \<open>HUME_AI\<close>.
\<close>

theorem utterance_voice_reference:
  "(truthy_string (u_voiceName opts) \<longrightarrow> u_voiceName opts = Some n \<longrightarrow>
      utt_voice (calculateUtterance opts) =
        Some (VoiceName n
          (if spec_provider (u_provider opts) (u_presetVoice opts) = Some HUME_AI
           then Some HUME_AI else None)))
   \<and> (\<not> truthy_string (u_voiceName opts) \<longrightarrow> truthy_string (u_voiceId opts) \<longrightarrow>
      u_voiceId opts = Some i \<longrightarrow>
      utt_voice (calculateUtterance opts) =
        Some (VoiceId i
          (if spec_provider (u_provider opts) (u_presetVoice opts) = Some HUME_AI
           then Some HUME_AI else None)))
   \<and> (\<not> truthy_string (u_voiceName opts) \<longrightarrow> \<not> truthy_string (u_voiceId opts) \<longrightarrow>
      utt_voice (calculateUtterance opts) = None)"
proof -
  have provider: "(if u_provider opts = None \<and> u_presetVoice opts then Some HUME_AI
                   else u_provider opts) = spec_provider (u_provider opts) (u_presetVoice opts)"
    by (simp add: spec_provider_def split: option.splits)
  have name: "utt_voice (calculateUtterance opts) =
        Some (VoiceName n
          (if spec_provider (u_provider opts) (u_presetVoice opts) = Some HUME_AI
           then Some HUME_AI else None))"
    if "truthy_string (u_voiceName opts)" and "u_voiceName opts = Some n"
    using that by (simp add: calculateUtterance_def Let_def provider)
  have ident: "utt_voice (calculateUtterance opts) =
        Some (VoiceId i
          (if spec_provider (u_provider opts) (u_presetVoice opts) = Some HUME_AI
           then Some HUME_AI else None))"
    if "\<not> truthy_string (u_voiceName opts)" and "truthy_string (u_voiceId opts)"
      and "u_voiceId opts = Some i"
    using that by (simp add: calculateUtterance_def Let_def provider)
  have none: "utt_voice (calculateUtterance opts) = None"
    if "\<not> truthy_string (u_voiceName opts)" and "\<not> truthy_string (u_voiceId opts)"
    using that by (simp add: calculateUtterance_def Let_def)
  from name ident none show ?thesis by blast
qed

theorem utterance_voice_reference_witness:
  "truthy_string (u_voiceName customVoiceOpts)
   \<and> utt_voice (calculateUtterance customVoiceOpts) = Some (VoiceName ''v'' None)
   \<and> \<not> truthy_string (u_voiceName presetVoiceOpts) \<and> truthy_string (u_voiceId presetVoiceOpts)
   \<and> utt_voice (calculateUtterance presetVoiceOpts) = Some (VoiceId ''voice_123'' (Some HUME_AI))
   \<and> utt_voice (calculateUtterance (presetVoiceOpts\<lparr>u_voiceId := None\<rparr>)) = None"
  using utterance_voice_reference[where opts = customVoiceOpts and n = "''v''"]
    utterance_voice_reference[where opts = presetVoiceOpts and i = "''voice_123''"]
    utterance_voice_reference[where opts = "presetVoiceOpts\<lparr>u_voiceId := None\<rparr>"]
  by (simp add: truthy_string_def customVoiceOpts_def presetVoiceOpts_def spec_provider_def)

text \<open>
  Claim C8 as stated fails for the provider \<open>CUSTOM_VOICE\<close>: it is resolved and the
  voice reference carries no provider.
\<close>

theorem utterance_provider_counterexample:
  "spec_provider (u_provider customVoiceOpts) (u_presetVoice customVoiceOpts) = Some CUSTOM_VOICE
   \<and> utt_voice (calculateUtterance customVoiceOpts) = Some (VoiceName ''v'' None)"
  by (simp add: calculateUtterance_def spec_provider_def customVoiceOpts_def truthy_string_def)

section \<open>Instant mode\<close>

text \<open>
  What the block "Validate instant_mode requirements" does. When the resolved options
  have \<^verbatim>\<open>instantMode\<close> true, \<^verbatim>\<open>synthesize\<close> fails with the world unchanged (so before any
  remote call) unless \<^verbatim>\<open>streaming\<close> is true, the output plan has \<^verbatim>\<open>numGenerations\<close> 1 and
  the utterance has a voice or the request has a \<^verbatim>\<open>context\<close> object. When the output plan
  and the continuation are computed without error, the error is the one of the first
  unmet test. The test of the context is on the object, not on the generation id in it.
\<close>

lemma instant_mode_validation:
  assumes "getSettings ext (opt_common rawOpts) = st"
    and "resolveOpts (st_env st) (st_globalConfig st) (st_session st) rawOpts = Inr opts"
    and "res_instantMode opts"
  shows "(\<not> (res_streaming opts \<and>
            (\<exists>outputOpts tts1.
               calculateOutputOpts opts = Inr outputOpts \<and>
               maybeAddContext (res_contextGenerationId opts) (res_last opts) (res_lastIndex opts)
                 (w_history w) (initialTts (utteranceOf opts (inputText ext opts)) outputOpts opts)
                 = Inr tts1 \<and>
               out_numGenerations outputOpts = 1 \<and>
               (utt_voice (utteranceOf opts (inputText ext opts)) \<noteq> None \<or>
                tts_context tts1 \<noteq> None)))
          \<longrightarrow> (\<exists>e. synthesize ext rawOpts w = (Inl e, w)))
     \<and> (\<forall>outputOpts tts1.
           calculateOutputOpts opts = Inr outputOpts \<longrightarrow>
           maybeAddContext (res_contextGenerationId opts) (res_last opts) (res_lastIndex opts)
             (w_history w) (initialTts (utteranceOf opts (inputText ext opts)) outputOpts opts)
             = Inr tts1 \<longrightarrow>
           (\<not> res_streaming opts \<longrightarrow>
              synthesize ext rawOpts w = (Inl InstantModeRequiresStreaming, w))
         \<and> (res_streaming opts \<longrightarrow> out_numGenerations outputOpts \<noteq> 1 \<longrightarrow>
              synthesize ext rawOpts w = (Inl InstantModeRequiresNumGenerations1, w))
         \<and> (res_streaming opts \<longrightarrow> out_numGenerations outputOpts = 1 \<longrightarrow>
              utt_voice (utteranceOf opts (inputText ext opts)) = None \<longrightarrow>
              tts_context tts1 = None \<longrightarrow>
              synthesize ext rawOpts w = (Inl InstantModeRequiresVoice, w)))"
proof (intro conjI allI impI)
  assume n: "\<not> (res_streaming opts \<and>
            (\<exists>outputOpts tts1.
               calculateOutputOpts opts = Inr outputOpts \<and>
               maybeAddContext (res_contextGenerationId opts) (res_last opts) (res_lastIndex opts)
                 (w_history w) (initialTts (utteranceOf opts (inputText ext opts)) outputOpts opts)
                 = Inr tts1 \<and>
               out_numGenerations outputOpts = 1 \<and>
               (utt_voice (utteranceOf opts (inputText ext opts)) \<noteq> None \<or>
                tts_context tts1 \<noteq> None)))"
  show "\<exists>e. synthesize ext rawOpts w = (Inl e, w)"
  proof (cases "calculateOutputOpts opts")
    case (Inl e)
    then show ?thesis using assms by (simp add: synthesize_def)
  next
    case (Inr outputOpts)
    note oo = this
    show ?thesis
    proof (cases "maybeAddContext (res_contextGenerationId opts) (res_last opts) (res_lastIndex opts)
                 (w_history w) (initialTts (utteranceOf opts (inputText ext opts)) outputOpts opts)")
      case (Inl e)
      then show ?thesis using assms oo by (simp add: synthesize_def)
    next
      case (Inr tts1)
      with n oo have "\<not> res_streaming opts \<or> out_numGenerations outputOpts \<noteq> 1 \<or>
        (utt_voice (utteranceOf opts (inputText ext opts)) = None \<and> tts_context tts1 = None)"
        by auto
      then have "\<exists>e. validateInstantMode opts outputOpts (utteranceOf opts (inputText ext opts)) tts1 = Inl e"
        using assms(3) by (auto simp add: validateInstantMode_def)
      then show ?thesis using assms oo Inr by (auto simp add: synthesize_def)
    qed
  qed
next
  fix outputOpts tts1
  assume "calculateOutputOpts opts = Inr outputOpts"
    and "maybeAddContext (res_contextGenerationId opts) (res_last opts) (res_lastIndex opts)
             (w_history w) (initialTts (utteranceOf opts (inputText ext opts)) outputOpts opts)
             = Inr tts1"
    and "\<not> res_streaming opts"
  then show "synthesize ext rawOpts w = (Inl InstantModeRequiresStreaming, w)"
    using assms by (simp add: synthesize_def validateInstantMode_def)
next
  fix outputOpts tts1
  assume "calculateOutputOpts opts = Inr outputOpts"
    and "maybeAddContext (res_contextGenerationId opts) (res_last opts) (res_lastIndex opts)
             (w_history w) (initialTts (utteranceOf opts (inputText ext opts)) outputOpts opts)
             = Inr tts1"
    and "res_streaming opts" and "out_numGenerations outputOpts \<noteq> 1"
  then show "synthesize ext rawOpts w = (Inl InstantModeRequiresNumGenerations1, w)"
    using assms by (simp add: synthesize_def validateInstantMode_def)
next
  fix outputOpts tts1
  assume "calculateOutputOpts opts = Inr outputOpts"
    and "maybeAddContext (res_contextGenerationId opts) (res_last opts) (res_lastIndex opts)
             (w_history w) (initialTts (utteranceOf opts (inputText ext opts)) outputOpts opts)
             = Inr tts1"
    and "res_streaming opts" and "out_numGenerations outputOpts = 1"
    and "utt_voice (utteranceOf opts (inputText ext opts)) = None"
    and "tts_context tts1 = None"
  then show "synthesize ext rawOpts w = (Inl InstantModeRequiresVoice, w)"
    using assms by (simp add: synthesize_def validateInstantMode_def)
qed


lemma getSettings_testExt:
  "getSettings (testExt chunks) noCommon =
     \<lparr>st_env = [''HUME_API_KEY'' \<mapsto> ''test-key''], st_globalConfig = emptyConfig,
      st_session = emptyConfig, st_hume = Some (ext_service (testExt chunks))\<rparr>"
  by (simp add: getSettings_def testExt_def emptyConfig_def truthy_string_def noCommon_def Let_def)

lemma resolve_instant:
  "resolveOpts env emptyConfig emptyConfig
     (instantOpts\<lparr>opt_streaming := Some b, opt_numGenerations := n\<rparr>) =
   Inr (instantResolved\<lparr>res_streaming := b,
          res_numGenerations := (case n of None \<Rightarrow> 1 | Some k \<Rightarrow> k)\<rparr>)"
  by (simp add: resolve_defs example_defs split: option.splits)

lemma instant_context:
  "maybeAddContext (res_contextGenerationId instantResolved) (res_last instantResolved) li h tts
     = Inr tts"
  by (simp add: maybeAddContext_def instantResolved_def defaultResolved_def truthy_string_def)

lemma instant_output:
  "calculateOutputOpts (instantResolved\<lparr>res_streaming := b, res_numGenerations := k\<rparr>) =
     Inr (DirOut k ''./tts-audio'' ''tts-'' Wav)"
  by (simp add: calculateOutputOpts_def instantResolved_def defaultResolved_def)

lemma instant_mode_validation_tests:
  "synthesize (testExt []) (instantOpts\<lparr>opt_streaming := Some False, opt_numGenerations := None\<rparr>)
      emptyWorld = (Inl InstantModeRequiresStreaming, emptyWorld)
   \<and> synthesize (testExt []) (instantOpts\<lparr>opt_streaming := Some True, opt_numGenerations := Some 2\<rparr>)
      emptyWorld = (Inl InstantModeRequiresNumGenerations1, emptyWorld)
   \<and> synthesize (testExt []) (instantOpts\<lparr>opt_streaming := Some True, opt_numGenerations := None\<rparr>)
      emptyWorld = (Inl InstantModeRequiresVoice, emptyWorld)"
proof -
  have c: "opt_common (instantOpts\<lparr>opt_streaming := Some b, opt_numGenerations := n\<rparr>) = noCommon"
    for b n by (simp add: instantOpts_def textOpts_def)
  have r: "resolveOpts
             (st_env (getSettings (testExt [])
                (opt_common (instantOpts\<lparr>opt_streaming := Some b, opt_numGenerations := n\<rparr>))))
             (st_globalConfig (getSettings (testExt [])
                (opt_common (instantOpts\<lparr>opt_streaming := Some b, opt_numGenerations := n\<rparr>))))
             (st_session (getSettings (testExt [])
                (opt_common (instantOpts\<lparr>opt_streaming := Some b, opt_numGenerations := n\<rparr>))))
             (instantOpts\<lparr>opt_streaming := Some b, opt_numGenerations := n\<rparr>) =
           Inr (instantResolved\<lparr>res_streaming := b,
                  res_numGenerations := (case n of None \<Rightarrow> 1 | Some k \<Rightarrow> k)\<rparr>)" for b n
    by (simp only: c getSettings_testExt Settings.simps resolve_instant)
  have i: "res_instantMode (instantResolved\<lparr>res_streaming := b, res_numGenerations := k\<rparr>)" for b k
    by (simp add: instantResolved_def)
  have v: "utt_voice (utteranceOf (instantResolved\<lparr>res_streaming := b, res_numGenerations := k\<rparr>) t)
      = None" for b k t
    by (simp add: utteranceOf_def calculateUtterance_def instantResolved_def defaultResolved_def
        truthy_string_def)
  have t: "tts_context (initialTts u oo ro) = None" for u oo ro
    by (simp add: initialTts_def)
  have s: "res_streaming (instantResolved\<lparr>res_streaming := b, res_numGenerations := k\<rparr>) = b" for b k
    by simp
  from instant_mode_validation[OF refl r[where b = False and n = None] i, where w = emptyWorld]
  have 1: "synthesize (testExt []) (instantOpts\<lparr>opt_streaming := Some False, opt_numGenerations := None\<rparr>)
      emptyWorld = (Inl InstantModeRequiresStreaming, emptyWorld)"
    by (simp add: instant_context instant_output)
  from instant_mode_validation[OF refl r[where b = True and n = "Some 2"] i, where w = emptyWorld]
  have 2: "synthesize (testExt []) (instantOpts\<lparr>opt_streaming := Some True, opt_numGenerations := Some 2\<rparr>)
      emptyWorld = (Inl InstantModeRequiresNumGenerations1, emptyWorld)"
    by (simp add: instant_context instant_output)
  from instant_mode_validation[OF refl r[where b = True and n = None] i, where w = emptyWorld]
  have 3: "synthesize (testExt []) (instantOpts\<lparr>opt_streaming := Some True, opt_numGenerations := None\<rparr>)
      emptyWorld = (Inl InstantModeRequiresVoice, emptyWorld)"
    by (simp add: instant_context instant_output v t)
  from 1 2 3 show ?thesis by simp
qed

section \<open>The streaming driver: accumulation, playback, files and history\<close>

lemmas stream_defs = testExt_def snippy_def streamResolved_def streamOut_def twoChunks_def
  gappedChunks_def silentGeneration_def defaultResolved_def emptyWorld_def

lemmas spec_stream_defs = audio_generation_ids_def observed_generation_ids_def chunks_of_def
  fullPath_def

lemma set_first_seen: "set (first_seen xs) = set xs"
  by (induction xs) auto

lemma distinct_first_seen: "distinct (first_seen xs)"
  by (induction xs) (auto simp: distinct_removeAll)

lemma map_set_absent: "k \<notin> fst ` set m \<Longrightarrow> map_set m k v = m @ [(k, v)]"
  by (induction m) auto

lemma map_push_absent: "k \<notin> fst ` set m \<Longrightarrow> map_push m k b = m"
  by (induction m) auto

lemma map_push_present:
  "distinct (map fst m) \<Longrightarrow>
   map_push m k b = map (\<lambda>(k', bs). (k', if k' = k then bs @ [b] else bs)) m"
proof (induction m)
  case Nil
  then show ?case by simp
next
  case (Cons p m)
  obtain k' bs where p: "p = (k', bs)" by (cases p)
  show ?case
  proof (cases "k' = k")
    case True
    with Cons.prems p have "k \<notin> fst ` set m" by auto
    then have "map (\<lambda>(k', bs). (k', if k' = k then bs @ [b] else bs)) m = m"
      by (induction m) auto
    with True p show ?thesis by simp
  next
    case False
    with Cons p show ?thesis by simp
  qed
qed

lemma map_push_append_new:
  "k \<notin> fst ` set m \<Longrightarrow> map_push (m @ [(k, bs)]) k b = m @ [(k, bs @ [b])]"
  by (induction m) auto

lemma chunks_of_Nil: "chunks_of b64 g [] = []"
  by (simp add: chunks_of_def)

lemma chunks_of_Cons:
  "chunks_of b64 g (c # cs) =
     (if snip_generationId c = g \<and> snip_audio c \<noteq> [] then b64 (snip_audio c) # chunks_of b64 g cs
      else chunks_of b64 g cs)"
  by (simp add: chunks_of_def)

lemma audio_ids_Nil: "audio_generation_ids [] = []"
  by (simp add: audio_generation_ids_def)

lemma audio_ids_Cons:
  "audio_generation_ids (c # cs) =
     (if snip_audio c \<noteq> [] then
        snip_generationId c # removeAll (snip_generationId c) (audio_generation_ids cs)
      else audio_generation_ids cs)"
  by (simp add: audio_generation_ids_def)

lemma filter_removeAll_absent:
  "g \<in> S \<Longrightarrow> filter (\<lambda>x. x \<notin> S) (removeAll g xs) = filter (\<lambda>x. x \<notin> S) xs"
  by (induction xs) auto

lemma filter_removeAll_conj:
  "filter (\<lambda>x. x \<notin> S) (removeAll g xs) = filter (\<lambda>x. x \<notin> insert g S) xs"
  by (induction xs) auto

lemma go_loop_Cons:
  "go_loop b64 play wr (c # cs) first ga w =
     (if snip_audio c = [] then
        go_loop b64 play wr cs
          (if \<not> truthy_string first then Some (snip_generationId c) else first) ga w
      else if play = PlayFirst \<and> Some (snip_generationId c) \<noteq>
                (if \<not> truthy_string first then Some (snip_generationId c) else first) then
        go_loop b64 play wr cs
          (if \<not> truthy_string first then Some (snip_generationId c) else first)
          (map_push (if \<not> map_has ga (snip_generationId c)
                     then map_set ga (snip_generationId c) [] else ga)
             (snip_generationId c) (b64 (snip_audio c))) w
      else
        go_loop b64 play wr cs
          (if \<not> truthy_string first then Some (snip_generationId c) else first)
          (map_push (if \<not> map_has ga (snip_generationId c)
                     then map_set ga (snip_generationId c) [] else ga)
             (snip_generationId c) (b64 (snip_audio c)))
          (wr (b64 (snip_audio c)) w))"
  by (simp only: go_loop.simps Let_def)

lemma go_loop_skip:
  "snip_audio c = [] \<Longrightarrow>
   \<exists>first'. go_loop b64 play wr (c # cs) first ga w = go_loop b64 play wr cs first' ga w"
  by (subst go_loop_Cons) (simp only: if_P, blast)

lemma go_loop_step:
  assumes ne: "snip_audio c \<noteq> []"
  shows "\<exists>first' w'.
     go_loop b64 play wr (c # cs) first ga w =
     go_loop b64 play wr cs first'
       (map_push (if \<not> map_has ga (snip_generationId c)
                  then map_set ga (snip_generationId c) [] else ga)
          (snip_generationId c) (b64 (snip_audio c))) w'"
proof (cases "play = PlayFirst \<and> Some (snip_generationId c) \<noteq>
                (if \<not> truthy_string first then Some (snip_generationId c) else first)")
  case True
  show ?thesis
    by (subst go_loop_Cons) (simp only: if_not_P[OF ne] if_P[OF True], blast)
next
  case False
  show ?thesis
    by (subst go_loop_Cons) (simp only: if_not_P[OF ne] if_not_P[OF False], blast)
qed

lemma go_loop_accumulator:
  "distinct (map fst ga) \<Longrightarrow>
   fst (go_loop b64 play wr chunks first ga w) =
     map (\<lambda>(g, bs). (g, bs @ chunks_of b64 g chunks)) ga @
     map (\<lambda>g. (g, chunks_of b64 g chunks))
       (filter (\<lambda>g. g \<notin> fst ` set ga) (audio_generation_ids chunks))"
proof (induction chunks arbitrary: first ga w)
  case Nil
  then show ?case by (simp add: chunks_of_Nil audio_ids_Nil)
next
  case (Cons c cs)
  let ?g0 = "snip_generationId c"
  let ?b = "b64 (snip_audio c)"
  show ?case
  proof (cases "snip_audio c = []")
    case True
    from go_loop_skip[OF True] obtain first' where
      "go_loop b64 play wr (c # cs) first ga w = go_loop b64 play wr cs first' ga w"
      by blast
    then show ?thesis
      using Cons.IH[OF Cons.prems, of first' w] True
      by (simp add: chunks_of_Cons audio_ids_Cons)
  next
    case False
    note ne = this
    from go_loop_step[OF ne] obtain first' w' where
      step: "go_loop b64 play wr (c # cs) first ga w =
        go_loop b64 play wr cs first'
          (map_push (if \<not> map_has ga ?g0 then map_set ga ?g0 [] else ga) ?g0 ?b) w'"
      by blast
    show ?thesis
    proof (cases "?g0 \<in> fst ` set ga")
      case True
      let ?ga2 = "map (\<lambda>(k', bs). (k', if k' = ?g0 then bs @ [?b] else bs)) ga"
      have ga2: "map_push (if \<not> map_has ga ?g0 then map_set ga ?g0 [] else ga) ?g0 ?b = ?ga2"
        using True map_push_present[OF Cons.prems] by (simp add: map_has_def)
      have keys: "map fst ?ga2 = map fst ga" by (induction ga) auto
      have d: "distinct (map fst ?ga2)" using Cons.prems by (simp only: keys)
      have keyset: "fst ` set ?ga2 = fst ` set ga"
        using keys by (metis list.set_map)
      have "fst (go_loop b64 play wr (c # cs) first ga w) =
          map (\<lambda>(g, bs). (g, bs @ chunks_of b64 g cs)) ?ga2 @
          map (\<lambda>g. (g, chunks_of b64 g cs))
            (filter (\<lambda>g. g \<notin> fst ` set ?ga2) (audio_generation_ids cs))"
        unfolding step ga2 by (rule Cons.IH[OF d])
      then have st: "fst (go_loop b64 play wr (c # cs) first ga w) =
          map (\<lambda>(g, bs). (g, bs @ chunks_of b64 g cs)) ?ga2 @
          map (\<lambda>g. (g, chunks_of b64 g cs))
            (filter (\<lambda>g. g \<notin> fst ` set ga) (audio_generation_ids cs))"
        unfolding keyset .
      have a: "map (\<lambda>(g, bs). (g, bs @ chunks_of b64 g cs)) ?ga2 =
               map (\<lambda>(g, bs). (g, bs @ chunks_of b64 g (c # cs))) ga"
        using ne by (auto simp add: chunks_of_Cons)
      have b: "map (\<lambda>g. (g, chunks_of b64 g cs))
                 (filter (\<lambda>g. g \<notin> fst ` set ga) (audio_generation_ids cs)) =
               map (\<lambda>g. (g, chunks_of b64 g (c # cs)))
                 (filter (\<lambda>g. g \<notin> fst ` set ga) (audio_generation_ids (c # cs)))"
        using ne True by (auto simp add: chunks_of_Cons audio_ids_Cons filter_removeAll_absent)
      show ?thesis unfolding st a b ..
    next
      case False
      let ?ga2 = "ga @ [(?g0, [?b])]"
      have ga2: "map_push (if \<not> map_has ga ?g0 then map_set ga ?g0 [] else ga) ?g0 ?b = ?ga2"
        using False by (simp add: map_has_def map_set_absent map_push_append_new)
      have d: "distinct (map fst ?ga2)" using Cons.prems False by auto
      have keyset: "fst ` set ?ga2 = insert ?g0 (fst ` set ga)" by auto
      have "fst (go_loop b64 play wr (c # cs) first ga w) =
          map (\<lambda>(g, bs). (g, bs @ chunks_of b64 g cs)) ?ga2 @
          map (\<lambda>g. (g, chunks_of b64 g cs))
            (filter (\<lambda>g. g \<notin> fst ` set ?ga2) (audio_generation_ids cs))"
        unfolding step ga2 by (rule Cons.IH[OF d])
      then have st: "fst (go_loop b64 play wr (c # cs) first ga w) =
          map (\<lambda>(g, bs). (g, bs @ chunks_of b64 g cs)) ?ga2 @
          map (\<lambda>g. (g, chunks_of b64 g cs))
            (filter (\<lambda>g. g \<notin> insert ?g0 (fst ` set ga)) (audio_generation_ids cs))"
        unfolding keyset .
      have a: "map (\<lambda>(g, bs). (g, bs @ chunks_of b64 g cs)) ga =
               map (\<lambda>(g, bs). (g, bs @ chunks_of b64 g (c # cs))) ga"
        using False by (force simp add: chunks_of_Cons)
      have b: "map (\<lambda>g. (g, chunks_of b64 g cs))
                 (filter (\<lambda>g. g \<notin> insert ?g0 (fst ` set ga)) (audio_generation_ids cs)) =
               map (\<lambda>g. (g, chunks_of b64 g (c # cs)))
                 (filter (\<lambda>g. g \<notin> fst ` set ga) (removeAll ?g0 (audio_generation_ids cs)))"
        by (auto simp add: chunks_of_Cons filter_removeAll_conj)
      show ?thesis unfolding st using a b ne False
        by (simp add: audio_ids_Cons chunks_of_Cons)
    qed
  qed
qed

lemma go_loop_piped:
  "\<exists>cs. subseq cs (filter (\<lambda>c. snip_audio c \<noteq> []) chunks) \<and>
        (play = PlayAll \<longrightarrow> cs = filter (\<lambda>c. snip_audio c \<noteq> []) chunks) \<and>
        snd (go_loop b64 play wr chunks first ga w) = fold (\<lambda>c. wr (b64 (snip_audio c))) cs w"
proof (induction chunks arbitrary: first ga w)
  case Nil
  show ?case by (intro exI[of _ "[]"]) simp
next
  case (Cons c cs)
  let ?ne = "\<lambda>c. snip_audio c \<noteq> []"
  show ?case
  proof (cases "snip_audio c = []")
    case True
    from go_loop_skip[OF True] obtain first' where
      eq: "go_loop b64 play wr (c # cs) first ga w = go_loop b64 play wr cs first' ga w"
      by blast
    from Cons.IH[of first' ga w] True show ?thesis unfolding eq by simp
  next
    case False
    let ?ga2 = "map_push (if \<not> map_has ga (snip_generationId c)
                   then map_set ga (snip_generationId c) [] else ga)
                 (snip_generationId c) (b64 (snip_audio c))"
    let ?first1 = "if \<not> truthy_string first then Some (snip_generationId c) else first"
    have f: "filter ?ne (c # cs) = c # filter ?ne cs" using False by simp
    show ?thesis
    proof (cases "play = PlayFirst \<and> Some (snip_generationId c) \<noteq> ?first1")
      case True
      have eq: "go_loop b64 play wr (c # cs) first ga w = go_loop b64 play wr cs ?first1 ?ga2 w"
        by (subst go_loop_Cons) (simp only: if_not_P[OF False] if_P[OF True])
      from Cons.IH[of ?first1 ?ga2 w] obtain ds where
        ds: "subseq ds (filter ?ne cs)"
          "snd (go_loop b64 play wr cs ?first1 ?ga2 w) = fold (\<lambda>c. wr (b64 (snip_audio c))) ds w"
        by blast
      have 1: "subseq ds (filter ?ne (c # cs))" unfolding f using ds(1) by (rule list_emb_Cons)
      have 2: "play \<noteq> PlayAll" using True by auto
      show ?thesis unfolding eq using 1 2 ds(2) by blast
    next
      case np: False
      have eq: "go_loop b64 play wr (c # cs) first ga w =
                go_loop b64 play wr cs ?first1 ?ga2 (wr (b64 (snip_audio c)) w)"
        by (subst go_loop_Cons) (simp only: if_not_P[OF False] if_not_P[OF np])
      from Cons.IH[of ?first1 ?ga2 "wr (b64 (snip_audio c)) w"] obtain ds where
        ds: "subseq ds (filter ?ne cs)"
          "play = PlayAll \<longrightarrow> ds = filter ?ne cs"
          "snd (go_loop b64 play wr cs ?first1 ?ga2 (wr (b64 (snip_audio c)) w)) =
             fold (\<lambda>c. wr (b64 (snip_audio c))) ds (wr (b64 (snip_audio c)) w)"
        by blast
      have 1: "subseq (c # ds) (filter ?ne (c # cs))" unfolding f using ds(1) by simp
      have 2: "play = PlayAll \<longrightarrow> c # ds = filter ?ne (c # cs)" unfolding f using ds(2) by simp
      have 3: "snd (go_loop b64 play wr cs ?first1 ?ga2 (wr (b64 (snip_audio c)) w)) =
             fold (\<lambda>c. wr (b64 (snip_audio c))) (c # ds) w" using ds(3) by simp
      show ?thesis unfolding eq using 1 2 3 by blast
    qed
  qed
qed


lemma writeFullFiles_eq:
  "writeFullFiles ext outputOpts ga written w =
     (written @ map (\<lambda>(g, bs). (g, fullPath ext outputOpts g)) ga,
      w\<lparr>w_files := w_files w @ map (\<lambda>(g, bs). (fullPath ext outputOpts g, concat bs)) ga\<rparr>)"
  by (induction ga arbitrary: written w) (auto simp add: ensureDirAndWriteFile_def Let_def)

lemma fold_player:
  "fold (\<lambda>c w'. w'\<lparr>w_playerStdin := w_playerStdin w' @ [f c]\<rparr>) cs w =
     w\<lparr>w_playerStdin := w_playerStdin w @ map f cs\<rparr>"
  by (induction cs arbitrary: w) auto

lemma fold_noop: "fold (\<lambda>c w'. w') cs w = w"
  by (induction cs) auto

lemma go_accumulator:
  "fst (go ext hume tts opts wr w) =
     map (\<lambda>g. (g, chunks_of (ext_base64 ext) g (synthesizeJsonStreaming hume tts)))
       (audio_generation_ids (synthesizeJsonStreaming hume tts))"
  unfolding go_def by (subst go_loop_accumulator) simp_all

lemma go_player:
  "\<exists>cs. subseq cs (filter (\<lambda>c. snip_audio c \<noteq> []) (synthesizeJsonStreaming hume tts)) \<and>
     (res_play opts = PlayAll \<longrightarrow>
        cs = filter (\<lambda>c. snip_audio c \<noteq> []) (synthesizeJsonStreaming hume tts)) \<and>
     snd (go ext hume tts opts
            (\<lambda>audioBuffer w'. w'\<lparr>w_playerStdin := w_playerStdin w' @ [audioBuffer]\<rparr>) w) =
       w\<lparr>w_remote := w_remote w @ [SynthesizeJsonStreaming tts],
         w_playerStdin := w_playerStdin w @ map (\<lambda>c. ext_base64 ext (snip_audio c)) cs\<rparr>"
proof -
  from go_loop_piped[of "synthesizeJsonStreaming hume tts" "res_play opts" "ext_base64 ext"
      "\<lambda>audioBuffer w'. w'\<lparr>w_playerStdin := w_playerStdin w' @ [audioBuffer]\<rparr>" None "[]"
      "w\<lparr>w_remote := w_remote w @ [SynthesizeJsonStreaming tts]\<rparr>"]
  obtain cs where cs: "subseq cs (filter (\<lambda>c. snip_audio c \<noteq> []) (synthesizeJsonStreaming hume tts))"
    "res_play opts = PlayAll \<longrightarrow>
        cs = filter (\<lambda>c. snip_audio c \<noteq> []) (synthesizeJsonStreaming hume tts)"
    "snd (go ext hume tts opts
            (\<lambda>audioBuffer w'. w'\<lparr>w_playerStdin := w_playerStdin w' @ [audioBuffer]\<rparr>) w) =
     fold (\<lambda>c w'. w'\<lparr>w_playerStdin := w_playerStdin w' @ [ext_base64 ext (snip_audio c)]\<rparr>) cs
       (w\<lparr>w_remote := w_remote w @ [SynthesizeJsonStreaming tts]\<rparr>)"
    unfolding go_def by blast
  from cs(3) have "snd (go ext hume tts opts
            (\<lambda>audioBuffer w'. w'\<lparr>w_playerStdin := w_playerStdin w' @ [audioBuffer]\<rparr>) w) =
       w\<lparr>w_remote := w_remote w @ [SynthesizeJsonStreaming tts],
         w_playerStdin := w_playerStdin w @ map (\<lambda>c. ext_base64 ext (snip_audio c)) cs\<rparr>"
    by (simp add: fold_player)
  with cs(1,2) show ?thesis by blast
qed

lemma go_noop:
  "snd (go ext hume tts opts (\<lambda>audioBuffer w'. w') w) =
     w\<lparr>w_remote := w_remote w @ [SynthesizeJsonStreaming tts]\<rparr>"
proof -
  from go_loop_piped[of "synthesizeJsonStreaming hume tts" "res_play opts" "ext_base64 ext"
      "\<lambda>audioBuffer w'. w'" None "[]"
      "w\<lparr>w_remote := w_remote w @ [SynthesizeJsonStreaming tts]\<rparr>"]
  show ?thesis unfolding go_def by (auto simp add: fold_noop)
qed

lemma synthesizeStreaming_ok:
  assumes ok: "res_play opts = PlayOff \<or> ext_player ext (res_playCommand opts) = Exits 0"
    and tts1: "tts1 = tts\<lparr>tts_stripHeaders := Some True\<rparr>"
    and chunks: "chunks = synthesizeJsonStreaming hume tts1"
  shows "\<exists>cs. subseq cs (filter (\<lambda>c. snip_audio c \<noteq> []) chunks) \<and>
     (res_play opts = PlayAll \<longrightarrow> cs = filter (\<lambda>c. snip_audio c \<noteq> []) chunks) \<and>
     (res_play opts = PlayOff \<longrightarrow> cs = []) \<and>
     synthesizeStreaming ext tts hume opts outputOpts w =
       (Inr (map (\<lambda>g. (g, fullPath ext outputOpts g)) (audio_generation_ids chunks)),
        w\<lparr>w_remote := w_remote w @ [SynthesizeJsonStreaming tts1],
          w_playerStdin := w_playerStdin w @ map (\<lambda>c. ext_base64 ext (snip_audio c)) cs,
          w_files := w_files w @
            map (\<lambda>g. (fullPath ext outputOpts g, concat (chunks_of (ext_base64 ext) g chunks)))
              (audio_generation_ids chunks),
          w_history := Some \<lparr>ids = audio_generation_ids chunks, timestamp = ext_now ext\<rparr>\<rparr>)"
proof (cases "res_play opts = PlayOff")
  case True
  have "synthesizeStreaming ext tts hume opts outputOpts w =
       (Inr (map (\<lambda>g. (g, fullPath ext outputOpts g)) (audio_generation_ids chunks)),
        w\<lparr>w_remote := w_remote w @ [SynthesizeJsonStreaming tts1],
          w_playerStdin := w_playerStdin w @ map (\<lambda>c. ext_base64 ext (snip_audio c)) [],
          w_files := w_files w @
            map (\<lambda>g. (fullPath ext outputOpts g, concat (chunks_of (ext_base64 ext) g chunks)))
              (audio_generation_ids chunks),
          w_history := Some \<lparr>ids = audio_generation_ids chunks, timestamp = ext_now ext\<rparr>\<rparr>)"
    using True go_accumulator[of ext hume tts1 opts "\<lambda>audioBuffer w'. w'" w]
      go_noop[of ext hume tts1 opts w]
    by (simp add: synthesizeStreaming_def tts1[symmetric] chunks[symmetric] writeFullFiles_eq
        saveLastSynthesis_def split_beta comp_def Let_def)
  with True show ?thesis by (intro exI[of _ "[]"]) simp
next
  case False
  with ok have p: "ext_player ext (res_playCommand opts) = Exits 0" by simp
  let ?wr = "\<lambda>audioBuffer w'. w'\<lparr>w_playerStdin := w_playerStdin w' @ [audioBuffer]\<rparr>"
  from go_player[of hume tts1 opts ext w] obtain cs where
    cs: "subseq cs (filter (\<lambda>c. snip_audio c \<noteq> []) chunks)"
      "res_play opts = PlayAll \<longrightarrow> cs = filter (\<lambda>c. snip_audio c \<noteq> []) chunks"
      "snd (go ext hume tts1 opts ?wr w) =
         w\<lparr>w_remote := w_remote w @ [SynthesizeJsonStreaming tts1],
           w_playerStdin := w_playerStdin w @ map (\<lambda>c. ext_base64 ext (snip_audio c)) cs\<rparr>"
    unfolding chunks by blast
  have "synthesizeStreaming ext tts hume opts outputOpts w =
       (Inr (map (\<lambda>g. (g, fullPath ext outputOpts g)) (audio_generation_ids chunks)),
        w\<lparr>w_remote := w_remote w @ [SynthesizeJsonStreaming tts1],
          w_playerStdin := w_playerStdin w @ map (\<lambda>c. ext_base64 ext (snip_audio c)) cs,
          w_files := w_files w @
            map (\<lambda>g. (fullPath ext outputOpts g, concat (chunks_of (ext_base64 ext) g chunks)))
              (audio_generation_ids chunks),
          w_history := Some \<lparr>ids = audio_generation_ids chunks, timestamp = ext_now ext\<rparr>\<rparr>)"
    using False p go_accumulator[of ext hume tts1 opts ?wr w] cs(3)
    by (simp add: synthesizeStreaming_def withStdinAudioPlayer_def tts1[symmetric]
        chunks[symmetric] writeFullFiles_eq saveLastSynthesis_def split_beta comp_def Let_def)
  with cs(1,2) False show ?thesis by blast
qed

lemma synthesizeStreaming_Inr:
  assumes "synthesizeStreaming ext tts hume opts outputOpts w = (Inr written, w')"
  shows "res_play opts = PlayOff \<or> ext_player ext (res_playCommand opts) = Exits 0"
  using assms
  by (auto simp add: synthesizeStreaming_def withStdinAudioPlayer_def split_beta Let_def
      split: if_splits sum.splits player.splits)



lemma go_loop_single_generation:
  assumes "\<forall>c \<in> set chunks. snip_generationId c = g"
    and "first = None \<or> first = Some g"
  shows "snd (go_loop b64 play wr chunks first ga w) =
           fold (\<lambda>c. wr (b64 (snip_audio c))) (filter (\<lambda>c. snip_audio c \<noteq> []) chunks) w"
  using assms
proof (induction chunks arbitrary: first ga w)
  case Nil
  show ?case by simp
next
  case (Cons c cs)
  have g: "snip_generationId c = g" using Cons.prems(1) by simp
  have rest: "\<forall>c \<in> set cs. snip_generationId c = g" using Cons.prems(1) by simp
  have first1: "(if \<not> truthy_string first then Some (snip_generationId c) else first) = Some g"
    using Cons.prems(2) g by (auto simp add: truthy_string_def)
  show ?case
  proof (cases "snip_audio c = []")
    case True
    show ?thesis
      by (subst go_loop_Cons) (simp add: True first1 Cons.IH[OF rest])
  next
    case False
    show ?thesis
      by (subst go_loop_Cons) (simp add: False first1 g Cons.IH[OF rest])
  qed
qed

lemma go_player_single_generation:
  assumes "\<forall>c \<in> set (synthesizeJsonStreaming hume tts). snip_generationId c = g"
  shows "snd (go ext hume tts opts
            (\<lambda>audioBuffer w'. w'\<lparr>w_playerStdin := w_playerStdin w' @ [audioBuffer]\<rparr>) w) =
       w\<lparr>w_remote := w_remote w @ [SynthesizeJsonStreaming tts],
         w_playerStdin := w_playerStdin w @
           map (\<lambda>c. ext_base64 ext (snip_audio c))
             (filter (\<lambda>c. snip_audio c \<noteq> []) (synthesizeJsonStreaming hume tts))\<rparr>"
  unfolding go_def
  by (subst go_loop_single_generation[OF assms]) (simp_all add: fold_player)

lemma synthesizeStreaming_player:
  assumes "ext_player ext (res_playCommand opts) = Exits 0" and "res_play opts \<noteq> PlayOff"
  shows "w_playerStdin (snd (synthesizeStreaming ext tts hume opts outputOpts w)) =
     w_playerStdin (snd (go ext hume (tts\<lparr>tts_stripHeaders := Some True\<rparr>) opts
            (\<lambda>audioBuffer w'. w'\<lparr>w_playerStdin := w_playerStdin w' @ [audioBuffer]\<rparr>) w))"
  using assms
  by (simp add: synthesizeStreaming_def withStdinAudioPlayer_def Let_def split_beta
      writeFullFiles_eq saveLastSynthesis_def)


text \<open>
  Claim C3, as amended. When the player sink closes normally (or playback is off), the
  streaming driver writes, after the loop, exactly one file for each generation id that
  accumulated audio, and none for a generation id whose chunks were all empty: the ids
  are distinct, they are the generation ids of the chunks with non-empty audio, and the
  content of the file of an id is the concatenation, in arrival order, of the decoded
  non-empty chunks of that generation. Under a path output plan every file is written
  to the path; under a directory output plan the file of generation \<open>g\<close> is
  \<^verbatim>\<open>join(dir, prefix + g + ".wav")\<close>, \<^verbatim>\<open>".mp3"\<close> or \<^verbatim>\<open>".pcm"\<close> with the format of the plan.
\<close>

theorem streaming_one_file_per_generation:
  assumes "res_play opts = PlayOff \<or> ext_player ext (res_playCommand opts) = Exits 0"
    and "chunks = synthesizeJsonStreaming hume (tts\<lparr>tts_stripHeaders := Some True\<rparr>)"
  shows "distinct (audio_generation_ids chunks)
       \<and> set (audio_generation_ids chunks) =
           {snip_generationId c |c. c \<in> set chunks \<and> snip_audio c \<noteq> []}
       \<and> w_files (snd (synthesizeStreaming ext tts hume opts (PathOut path) w)) =
           w_files w @
           map (\<lambda>g. (path, concat (chunks_of (ext_base64 ext) g chunks)))
             (audio_generation_ids chunks)
       \<and> w_files (snd (synthesizeStreaming ext tts hume opts (DirOut n dir pfx Wav) w)) =
           w_files w @
           map (\<lambda>g. (ext_join ext dir (pfx @ g @ ''.wav''),
                      concat (chunks_of (ext_base64 ext) g chunks)))
             (audio_generation_ids chunks)
       \<and> w_files (snd (synthesizeStreaming ext tts hume opts (DirOut n dir pfx Mp3) w)) =
           w_files w @
           map (\<lambda>g. (ext_join ext dir (pfx @ g @ ''.mp3''),
                      concat (chunks_of (ext_base64 ext) g chunks)))
             (audio_generation_ids chunks)
       \<and> w_files (snd (synthesizeStreaming ext tts hume opts (DirOut n dir pfx Pcm) w)) =
           w_files w @
           map (\<lambda>g. (ext_join ext dir (pfx @ g @ ''.pcm''),
                      concat (chunks_of (ext_base64 ext) g chunks)))
             (audio_generation_ids chunks)
       \<and> fst (synthesizeStreaming ext tts hume opts outputOpts w) =
           Inr (map (\<lambda>g. (g, fullPath ext outputOpts g)) (audio_generation_ids chunks))"
proof -
  have files: "w_files (snd (synthesizeStreaming ext tts hume opts oo w)) =
      w_files w @
      map (\<lambda>g. (fullPath ext oo g, concat (chunks_of (ext_base64 ext) g chunks)))
        (audio_generation_ids chunks)" for oo
    using synthesizeStreaming_ok[OF assms(1) refl assms(2), of oo w] by auto
  have written: "fst (synthesizeStreaming ext tts hume opts outputOpts w) =
      Inr (map (\<lambda>g. (g, fullPath ext outputOpts g)) (audio_generation_ids chunks))"
    using synthesizeStreaming_ok[OF assms(1) refl assms(2), of outputOpts w] by auto
  have d: "distinct (audio_generation_ids chunks)"
    by (simp add: audio_generation_ids_def distinct_first_seen)
  have s: "set (audio_generation_ids chunks) =
           {snip_generationId c |c. c \<in> set chunks \<and> snip_audio c \<noteq> []}"
    by (auto simp add: audio_generation_ids_def set_first_seen)
  have p: "w_files (snd (synthesizeStreaming ext tts hume opts (PathOut path) w)) =
           w_files w @
           map (\<lambda>g. (path, concat (chunks_of (ext_base64 ext) g chunks)))
             (audio_generation_ids chunks)"
    unfolding files by (simp add: fullPath_def)
  have wav: "w_files (snd (synthesizeStreaming ext tts hume opts (DirOut n dir pfx Wav) w)) =
           w_files w @
           map (\<lambda>g. (ext_join ext dir (pfx @ g @ ''.wav''),
                      concat (chunks_of (ext_base64 ext) g chunks)))
             (audio_generation_ids chunks)"
    unfolding files by (simp add: fullPath_def)
  have mp3: "w_files (snd (synthesizeStreaming ext tts hume opts (DirOut n dir pfx Mp3) w)) =
           w_files w @
           map (\<lambda>g. (ext_join ext dir (pfx @ g @ ''.mp3''),
                      concat (chunks_of (ext_base64 ext) g chunks)))
             (audio_generation_ids chunks)"
    unfolding files by (simp add: fullPath_def)
  have pcm: "w_files (snd (synthesizeStreaming ext tts hume opts (DirOut n dir pfx Pcm) w)) =
           w_files w @
           map (\<lambda>g. (ext_join ext dir (pfx @ g @ ''.pcm''),
                      concat (chunks_of (ext_base64 ext) g chunks)))
             (audio_generation_ids chunks)"
    unfolding files by (simp add: fullPath_def)
  show ?thesis
    by (intro conjI) (rule d, rule s, rule p, rule wav, rule mp3, rule pcm, rule written)
qed

theorem streaming_one_file_per_generation_witness:
  "ext_player (testExt twoChunks) (res_playCommand streamResolved) = Exits 0
   \<and> w_files (snd (synthesizeStreaming (testExt twoChunks) exampleTts
        (ext_service (testExt twoChunks)) streamResolved
        (DirOut 1 ''stream/output'' ''stream-'' Wav) emptyWorld)) =
      [(''stream/output/stream-gen_1.wav'', charBytes ''audio_1_0'' @ charBytes ''audio_1_1'')]
   \<and> w_files (snd (synthesizeStreaming (testExt twoChunks) exampleTts
        (ext_service (testExt twoChunks)) streamResolved
        (DirOut 1 ''stream/output'' ''stream-'' Mp3) emptyWorld)) =
      [(''stream/output/stream-gen_1.mp3'', charBytes ''audio_1_0'' @ charBytes ''audio_1_1'')]
   \<and> w_files (snd (synthesizeStreaming (testExt twoChunks) exampleTts
        (ext_service (testExt twoChunks)) streamResolved
        (DirOut 1 ''config/output'' ''tts-'' Pcm) emptyWorld)) =
      [(''config/output/tts-gen_1.pcm'', charBytes ''audio_1_0'' @ charBytes ''audio_1_1'')]
   \<and> w_files (snd (synthesizeStreaming (testExt twoChunks) exampleTts
        (ext_service (testExt twoChunks)) streamResolved (PathOut ''out.wav'') emptyWorld)) =
      [(''out.wav'', charBytes ''audio_1_0'' @ charBytes ''audio_1_1'')]"
proof -
  have p: "ext_player (testExt twoChunks) (res_playCommand streamResolved) = Exits 0"
    by (simp add: testExt_def)
  have c: "twoChunks = synthesizeJsonStreaming (ext_service (testExt twoChunks))
             (exampleTts\<lparr>tts_stripHeaders := Some True\<rparr>)"
    by (simp add: testExt_def)
  have i: "audio_generation_ids twoChunks = [''gen_1'']"
    by (simp add: audio_generation_ids_def twoChunks_def snippy_def)
  have k: "chunks_of charBytes ''gen_1'' twoChunks = [charBytes ''audio_1_0'', charBytes ''audio_1_1'']"
    by (simp add: chunks_of_def twoChunks_def snippy_def)
  have b: "ext_base64 (testExt twoChunks) = charBytes" by (simp add: testExt_def)
  have j: "ext_join (testExt twoChunks) d f = d @ ''/'' @ f" for d f by (simp add: testExt_def)
  have e: "w_files emptyWorld = []" by (simp add: emptyWorld_def)
  note t = streaming_one_file_per_generation[OF disjI2[OF p] c, where w = emptyWorld
      and outputOpts = streamOut]
  note wav = t[where n = 1 and dir = "''stream/output''" and pfx = "''stream-''",
      THEN conjunct2, THEN conjunct2, THEN conjunct2, THEN conjunct1]
  note mp3 = t[where n = 1 and dir = "''stream/output''" and pfx = "''stream-''",
      THEN conjunct2, THEN conjunct2, THEN conjunct2, THEN conjunct2, THEN conjunct1]
  note pcm = t[where n = 1 and dir = "''config/output''" and pfx = "''tts-''",
      THEN conjunct2, THEN conjunct2, THEN conjunct2, THEN conjunct2, THEN conjunct2,
      THEN conjunct1]
  note path = t[where path = "''out.wav''", THEN conjunct2, THEN conjunct2, THEN conjunct1]
  from wav mp3 pcm path show ?thesis
    by (simp add: p i k b j e)
qed

text \<open>
  Claim C7, as amended. After a successful streaming synthesis the saved history record
  holds the generation ids that have at least one chunk with non-empty audio, each once,
  in the order of their first such chunk, and the time of the clock. A generation id
  whose chunks were all empty is not in the record.
\<close>

theorem streaming_history:
  assumes "synthesizeStreaming ext tts hume opts outputOpts w = (Inr written, w')"
    and "chunks = synthesizeJsonStreaming hume (tts\<lparr>tts_stripHeaders := Some True\<rparr>)"
  shows "w_history w' = Some \<lparr>ids = audio_generation_ids chunks, timestamp = ext_now ext\<rparr>
       \<and> distinct (audio_generation_ids chunks)
       \<and> set (audio_generation_ids chunks) =
           {snip_generationId c |c. c \<in> set chunks \<and> snip_audio c \<noteq> []}"
proof -
  from synthesizeStreaming_ok[OF synthesizeStreaming_Inr[OF assms(1)] refl assms(2),
      of outputOpts w] assms(1)
  have "w_history w' = Some \<lparr>ids = audio_generation_ids chunks, timestamp = ext_now ext\<rparr>"
    by auto
  moreover have "distinct (audio_generation_ids chunks)"
    by (simp add: audio_generation_ids_def distinct_first_seen)
  moreover have "set (audio_generation_ids chunks) =
           {snip_generationId c |c. c \<in> set chunks \<and> snip_audio c \<noteq> []}"
    by (auto simp add: audio_generation_ids_def set_first_seen)
  ultimately show ?thesis by blast
qed

lemma silent_run:
  "synthesizeStreaming (testExt silentGeneration) exampleTts
     (ext_service (testExt silentGeneration)) streamResolved streamOut emptyWorld =
   (Inr [(''gen_1'', ''stream/output/stream-gen_1.wav'')],
    \<lparr>w_files = [(''stream/output/stream-gen_1.wav'', charBytes ''audio_1_0'')],
     w_history = Some \<lparr>ids = [''gen_1''], timestamp = 1700000000000\<rparr>,
     w_playerStdin = [charBytes ''audio_1_0''], w_played = [],
     w_remote = [SynthesizeJsonStreaming (exampleTts\<lparr>tts_stripHeaders := Some True\<rparr>)]\<rparr>)"
  by (simp add: synthesizeStreaming_def withStdinAudioPlayer_def go_def Let_def map_has_def
      truthy_string_def saveLastSynthesis_def ensureDirAndWriteFile_def fullPath_def stream_defs)

text \<open>
  Claim C3 as stated fails: \<^verbatim>\<open>gen_2\<close> is a generation id of the stream, its only chunk is
  empty, and the one file written is the file of \<^verbatim>\<open>gen_1\<close>.
\<close>

theorem streaming_files_counterexample:
  "w_files (snd (synthesizeStreaming (testExt silentGeneration) exampleTts
     (ext_service (testExt silentGeneration)) streamResolved streamOut emptyWorld)) =
     [(''stream/output/stream-gen_1.wav'', charBytes ''audio_1_0'')]
   \<and> observed_generation_ids silentGeneration = [''gen_1'', ''gen_2'']"
proof -
  have "observed_generation_ids silentGeneration = [''gen_1'', ''gen_2'']"
    by (simp add: observed_generation_ids_def silentGeneration_def snippy_def)
  then show ?thesis by (simp add: silent_run)
qed

text \<open>
  Claim C7 as stated fails: \<^verbatim>\<open>gen_2\<close> is observed in the stream with an empty chunk only,
  and the saved history holds \<^verbatim>\<open>gen_1\<close> alone.
\<close>

theorem streaming_history_counterexample:
  "fst (synthesizeStreaming (testExt silentGeneration) exampleTts
     (ext_service (testExt silentGeneration)) streamResolved streamOut emptyWorld) =
     Inr [(''gen_1'', ''stream/output/stream-gen_1.wav'')]
   \<and> w_history (snd (synthesizeStreaming (testExt silentGeneration) exampleTts
     (ext_service (testExt silentGeneration)) streamResolved streamOut emptyWorld)) =
     Some \<lparr>ids = [''gen_1''], timestamp = 1700000000000\<rparr>
   \<and> observed_generation_ids silentGeneration = [''gen_1'', ''gen_2'']"
  by (simp add: silent_run) (simp add: observed_generation_ids_def silentGeneration_def snippy_def)

theorem streaming_history_witness:
  "synthesizeStreaming (testExt silentGeneration) exampleTts
     (ext_service (testExt silentGeneration)) streamResolved streamOut emptyWorld =
   (Inr [(''gen_1'', ''stream/output/stream-gen_1.wav'')],
    \<lparr>w_files = [(''stream/output/stream-gen_1.wav'', charBytes ''audio_1_0'')],
     w_history = Some \<lparr>ids = [''gen_1''], timestamp = 1700000000000\<rparr>,
     w_playerStdin = [charBytes ''audio_1_0''], w_played = [],
     w_remote = [SynthesizeJsonStreaming (exampleTts\<lparr>tts_stripHeaders := Some True\<rparr>)]\<rparr>)
   \<and> audio_generation_ids silentGeneration = [''gen_1'']"
proof -
  have c: "silentGeneration = synthesizeJsonStreaming (ext_service (testExt silentGeneration))
             (exampleTts\<lparr>tts_stripHeaders := Some True\<rparr>)"
    by (simp add: testExt_def)
  from streaming_history[OF silent_run c]
  have "audio_generation_ids silentGeneration = [''gen_1'']" by simp
  with silent_run show ?thesis by simp
qed

text \<open>
  Claim C4. With live playback the streaming driver does not abort on a chunk whose
  audio is empty: it returns normally; the accumulators hold decoded non-empty chunks
  only; what is piped to the player is the decoding of a subsequence of the non-empty
  chunks (all of them under \<^verbatim>\<open>play = all\<close>, and whenever the stream has a single
  generation id); the files hold non-empty chunks only. For one generation whose chunks
  are non-empty, empty, non-empty, two buffers are piped and the file is the two decoded
  payloads concatenated.
\<close>

theorem streaming_skips_empty_chunks:
  assumes "ext_player ext (res_playCommand opts) = Exits 0"
    and "res_play opts \<noteq> PlayOff"
    and "chunks = synthesizeJsonStreaming hume (tts\<lparr>tts_stripHeaders := Some True\<rparr>)"
  shows "fst (go ext hume (tts\<lparr>tts_stripHeaders := Some True\<rparr>) opts writeAudio w) =
           map (\<lambda>g. (g, chunks_of (ext_base64 ext) g chunks)) (audio_generation_ids chunks)
       \<and> fst (synthesizeStreaming ext tts hume opts outputOpts w) =
           Inr (map (\<lambda>g. (g, fullPath ext outputOpts g)) (audio_generation_ids chunks))
       \<and> (\<exists>cs. subseq cs (filter (\<lambda>c. snip_audio c \<noteq> []) chunks) \<and>
             (res_play opts = PlayAll \<longrightarrow> cs = filter (\<lambda>c. snip_audio c \<noteq> []) chunks) \<and>
             w_playerStdin (snd (synthesizeStreaming ext tts hume opts outputOpts w)) =
               w_playerStdin w @ map (\<lambda>c. ext_base64 ext (snip_audio c)) cs)
       \<and> w_files (snd (synthesizeStreaming ext tts hume opts outputOpts w)) =
           w_files w @
           map (\<lambda>g. (fullPath ext outputOpts g, concat (chunks_of (ext_base64 ext) g chunks)))
             (audio_generation_ids chunks)
       \<and> ((\<forall>c \<in> set chunks. snip_generationId c = g) \<longrightarrow>
            w_playerStdin (snd (synthesizeStreaming ext tts hume opts outputOpts w)) =
              w_playerStdin w @
              map (\<lambda>c. ext_base64 ext (snip_audio c)) (filter (\<lambda>c. snip_audio c \<noteq> []) chunks))
       \<and> (chunks = [\<lparr>snip_generationId = g, snip_audio = a1\<rparr>,
                     \<lparr>snip_generationId = g, snip_audio = []\<rparr>,
                     \<lparr>snip_generationId = g, snip_audio = a3\<rparr>] \<longrightarrow> a1 \<noteq> [] \<longrightarrow> a3 \<noteq> [] \<longrightarrow>
            w_playerStdin (snd (synthesizeStreaming ext tts hume opts outputOpts w)) =
              w_playerStdin w @ [ext_base64 ext a1, ext_base64 ext a3]
          \<and> w_files (snd (synthesizeStreaming ext tts hume opts outputOpts w)) =
              w_files w @ [(fullPath ext outputOpts g, ext_base64 ext a1 @ ext_base64 ext a3)])"
proof -
  let ?run = "synthesizeStreaming ext tts hume opts outputOpts w"
  let ?ne = "\<lambda>c. snip_audio c \<noteq> []"
  have acc: "fst (go ext hume (tts\<lparr>tts_stripHeaders := Some True\<rparr>) opts writeAudio w) =
           map (\<lambda>g. (g, chunks_of (ext_base64 ext) g chunks)) (audio_generation_ids chunks)"
    unfolding assms(3) by (rule go_accumulator)
  from synthesizeStreaming_ok[OF disjI2[OF assms(1)] refl assms(3), of outputOpts w]
  obtain cs where cs: "subseq cs (filter ?ne chunks)"
      "res_play opts = PlayAll \<longrightarrow> cs = filter ?ne chunks"
      "?run =
       (Inr (map (\<lambda>g. (g, fullPath ext outputOpts g)) (audio_generation_ids chunks)),
        w\<lparr>w_remote := w_remote w @ [SynthesizeJsonStreaming (tts\<lparr>tts_stripHeaders := Some True\<rparr>)],
          w_playerStdin := w_playerStdin w @ map (\<lambda>c. ext_base64 ext (snip_audio c)) cs,
          w_files := w_files w @
            map (\<lambda>g. (fullPath ext outputOpts g, concat (chunks_of (ext_base64 ext) g chunks)))
              (audio_generation_ids chunks),
          w_history := Some \<lparr>ids = audio_generation_ids chunks, timestamp = ext_now ext\<rparr>\<rparr>)"
    by blast
  have res: "fst ?run =
      Inr (map (\<lambda>g. (g, fullPath ext outputOpts g)) (audio_generation_ids chunks))"
    by (simp add: cs(3))
  have files: "w_files (snd ?run) = w_files w @
           map (\<lambda>g. (fullPath ext outputOpts g, concat (chunks_of (ext_base64 ext) g chunks)))
             (audio_generation_ids chunks)"
    by (simp add: cs(3))
  have piped: "\<exists>cs. subseq cs (filter ?ne chunks) \<and>
             (res_play opts = PlayAll \<longrightarrow> cs = filter ?ne chunks) \<and>
             w_playerStdin (snd ?run) =
               w_playerStdin w @ map (\<lambda>c. ext_base64 ext (snip_audio c)) cs"
    using cs(1,2) by (intro exI[of _ cs]) (simp add: cs(3))
  have single: "w_playerStdin (snd ?run) =
      w_playerStdin w @ map (\<lambda>c. ext_base64 ext (snip_audio c)) (filter ?ne chunks)"
    if "\<forall>c \<in> set chunks. snip_generationId c = g" for g
    using that unfolding synthesizeStreaming_player[OF assms(1,2)] assms(3)
    by (subst go_player_single_generation[where g = g]) simp_all
  have example: "w_playerStdin (snd ?run) =
              w_playerStdin w @ [ext_base64 ext a1, ext_base64 ext a3]
          \<and> w_files (snd ?run) =
              w_files w @ [(fullPath ext outputOpts g, ext_base64 ext a1 @ ext_base64 ext a3)]"
    if c: "chunks = [\<lparr>snip_generationId = g, snip_audio = a1\<rparr>,
                     \<lparr>snip_generationId = g, snip_audio = []\<rparr>,
                     \<lparr>snip_generationId = g, snip_audio = a3\<rparr>]"
      and a: "a1 \<noteq> []" "a3 \<noteq> []"
  proof -
    have "\<forall>c \<in> set chunks. snip_generationId c = g" by (simp add: c)
    from single[OF this] have 1: "w_playerStdin (snd ?run) =
              w_playerStdin w @ [ext_base64 ext a1, ext_base64 ext a3]"
      using a by (simp add: c)
    have 2: "w_files (snd ?run) =
              w_files w @ [(fullPath ext outputOpts g, ext_base64 ext a1 @ ext_base64 ext a3)]"
      unfolding files using a by (simp add: c audio_generation_ids_def chunks_of_def)
    from 1 2 show ?thesis by simp
  qed
  have s5: "(\<forall>c \<in> set chunks. snip_generationId c = g) \<longrightarrow>
            w_playerStdin (snd ?run) =
              w_playerStdin w @
              map (\<lambda>c. ext_base64 ext (snip_audio c)) (filter ?ne chunks)"
    using single by blast
  have s6: "chunks = [\<lparr>snip_generationId = g, snip_audio = a1\<rparr>,
                     \<lparr>snip_generationId = g, snip_audio = []\<rparr>,
                     \<lparr>snip_generationId = g, snip_audio = a3\<rparr>] \<longrightarrow> a1 \<noteq> [] \<longrightarrow> a3 \<noteq> [] \<longrightarrow>
            w_playerStdin (snd ?run) =
              w_playerStdin w @ [ext_base64 ext a1, ext_base64 ext a3]
          \<and> w_files (snd ?run) =
              w_files w @ [(fullPath ext outputOpts g, ext_base64 ext a1 @ ext_base64 ext a3)]"
    using example by blast
  show ?thesis
    by (intro conjI) (rule acc, rule res, rule piped, rule files, rule s5, rule s6)
qed

theorem streaming_skips_empty_chunks_witness:
  "ext_player (testExt gappedChunks) (res_playCommand streamResolved) = Exits 0
   \<and> res_play streamResolved \<noteq> PlayOff
   \<and> fst (synthesizeStreaming (testExt gappedChunks) exampleTts (ext_service (testExt gappedChunks))
        streamResolved streamOut emptyWorld) =
      Inr [(''gen_1'', ''stream/output/stream-gen_1.wav'')]
   \<and> w_playerStdin (snd (synthesizeStreaming (testExt gappedChunks) exampleTts
        (ext_service (testExt gappedChunks)) streamResolved streamOut emptyWorld)) =
      [charBytes ''audio1'', charBytes ''audio3'']
   \<and> w_files (snd (synthesizeStreaming (testExt gappedChunks) exampleTts
        (ext_service (testExt gappedChunks)) streamResolved streamOut emptyWorld)) =
      [(''stream/output/stream-gen_1.wav'', charBytes ''audio1'' @ charBytes ''audio3'')]"
proof -
  have p: "ext_player (testExt gappedChunks) (res_playCommand streamResolved) = Exits 0"
    by (simp add: testExt_def)
  have q: "res_play streamResolved \<noteq> PlayOff"
    by (simp add: streamResolved_def defaultResolved_def)
  have c: "gappedChunks = synthesizeJsonStreaming (ext_service (testExt gappedChunks))
             (exampleTts\<lparr>tts_stripHeaders := Some True\<rparr>)"
    by (simp add: testExt_def)
  have g: "gappedChunks = [\<lparr>snip_generationId = ''gen_1'', snip_audio = ''audio1''\<rparr>,
                     \<lparr>snip_generationId = ''gen_1'', snip_audio = []\<rparr>,
                     \<lparr>snip_generationId = ''gen_1'', snip_audio = ''audio3''\<rparr>]"
    by (simp add: gappedChunks_def snippy_def)
  have a: "''audio1'' \<noteq> []" "''audio3'' \<noteq> []" by simp_all
  note t = streaming_skips_empty_chunks[OF p q c, where outputOpts = streamOut and w = emptyWorld]
  note res = t[THEN conjunct2, THEN conjunct1]
  note ex = t[THEN conjunct2, THEN conjunct2, THEN conjunct2, THEN conjunct2, THEN conjunct2,
      rule_format, OF g a]
  have b: "ext_base64 (testExt gappedChunks) = charBytes" by (simp add: testExt_def)
  have e: "w_files emptyWorld = []" "w_playerStdin emptyWorld = []" by (simp_all add: emptyWorld_def)
  have f: "fullPath (testExt gappedChunks) streamOut ''gen_1'' = ''stream/output/stream-gen_1.wav''"
    by (simp add: fullPath_def streamOut_def testExt_def)
  have i: "audio_generation_ids gappedChunks = [''gen_1'']"
    by (simp add: audio_generation_ids_def g)
  from res ex show ?thesis
    by (simp add: p q b e f i)
qed

section \<open>Instant mode and a continuation without a generation id\<close>

lemma resolve_instantLastIndex0:
  "resolveOpts env emptyConfig emptyConfig instantLastIndex0 = Inr instantLastResolved"
  by (simp add: resolve_defs example_defs instantLastIndex0_def instantLastResolved_def)

lemma synthesize_instantLastIndex0:
  "synthesize (testExt twoChunks) instantLastIndex0 historyWorld =
     synthesizeStreaming (testExt twoChunks) (requestWithoutReference\<lparr>tts_stripHeaders := None\<rparr>)
       (ext_service (testExt twoChunks)) instantLastResolved
       (DirOut 1 ''./tts-audio'' ''tts-'' Wav) historyWorld"
proof -
  have c: "opt_common instantLastIndex0 = noCommon"
    by (simp add: instantLastIndex0_def textOpts_def)
  have sel: "res_contextGenerationId instantLastResolved = None"
    "res_last instantLastResolved = True" "res_lastIndex instantLastResolved = Some 0"
    "res_streaming instantLastResolved = True" "res_instantMode instantLastResolved = True"
    "res_format instantLastResolved = Wav"
    by (simp_all add: instantLastResolved_def defaultResolved_def)
  have o: "calculateOutputOpts instantLastResolved = Inr (DirOut 1 ''./tts-audio'' ''tts-'' Wav)"
    by (simp add: calculateOutputOpts_def instantLastResolved_def defaultResolved_def)
  have u: "utteranceOf instantLastResolved (inputText (testExt twoChunks) instantLastResolved) =
      \<lparr>utt_text = ''Hello'', utt_voice = None, utt_description = None,
        utt_speed = None, utt_trailingSilence = None\<rparr>"
    by (simp add: utteranceOf_def inputText_def calculateUtterance_def instantLastResolved_def
        defaultResolved_def truthy_string_def)
  have m: "maybeAddContext None True (Some 0) (Some (historyOf [''gen_1''])) tts =
      Inr (tts\<lparr>tts_context := Some \<lparr>ctx_generationId = None\<rparr>\<rparr>)" for tts
    by (simp add: maybeAddContext_def truthy_string_def historyOf_def js_index_def)
  have h: "w_history historyWorld = Some (historyOf [''gen_1''])"
    by (simp add: historyWorld_def emptyWorld_def)
  have v: "validateInstantMode instantLastResolved (DirOut 1 ''./tts-audio'' ''tts-'' Wav)
      \<lparr>utt_text = ''Hello'', utt_voice = None, utt_description = None,
        utt_speed = None, utt_trailingSilence = None\<rparr>
      ((initialTts \<lparr>utt_text = ''Hello'', utt_voice = None, utt_description = None,
        utt_speed = None, utt_trailingSilence = None\<rparr>
        (DirOut 1 ''./tts-audio'' ''tts-'' Wav) instantLastResolved)
        \<lparr>tts_context := Some \<lparr>ctx_generationId = None\<rparr>\<rparr>) =
      Inr (requestWithoutReference\<lparr>tts_stripHeaders := None\<rparr>)"
    by (simp add: validateInstantMode_def initialTts_def sel requestWithoutReference_def)
  show ?thesis
    unfolding synthesize_def c getSettings_testExt
    by (simp add: resolve_instantLastIndex0 o u sel m h v Let_def)
qed

text \<open>
  Claim C5 at the input \<^verbatim>\<open>--instant-mode --last --last-index 0\<close>, with a history of one
  generation id and no voice. \<^verbatim>\<open>maybeAddContext\<close> does not reject the index 0 and sets the
  context to an object whose generation id is \<^verbatim>\<open>ids[-1]\<close>, that is \<^verbatim>\<open>undefined\<close>; the test
  \<^verbatim>\<open>!utterance.voice && !tts.context\<close> then passes, \<^verbatim>\<open>synthesize\<close> does not fail, and the
  streaming request is sent with \<^verbatim>\<open>instantMode\<close> true, no voice and no generation id.
\<close>

theorem instant_mode_without_generation_id:
  "\<not> isl (fst (synthesize (testExt twoChunks) instantLastIndex0 historyWorld))
   \<and> w_remote (snd (synthesize (testExt twoChunks) instantLastIndex0 historyWorld)) =
       [SynthesizeJsonStreaming requestWithoutReference]
   \<and> utt_voice (hd (tts_utterances requestWithoutReference)) = None
   \<and> tts_context requestWithoutReference = Some \<lparr>ctx_generationId = None\<rparr>
   \<and> tts_instantMode requestWithoutReference = Some True"
proof -
  have p: "res_play instantLastResolved = PlayOff \<or>
      ext_player (testExt twoChunks) (res_playCommand instantLastResolved) = Exits 0"
    by (simp add: testExt_def)
  have r: "requestWithoutReference\<lparr>tts_stripHeaders := None, tts_stripHeaders := Some True\<rparr> =
      requestWithoutReference"
    by (simp add: requestWithoutReference_def)
  from synthesizeStreaming_ok[OF p refl refl,
      where tts = "requestWithoutReference\<lparr>tts_stripHeaders := None\<rparr>"
        and hume = "ext_service (testExt twoChunks)"
        and outputOpts = "DirOut 1 ''./tts-audio'' ''tts-'' Wav" and w = historyWorld]
  obtain written w' where
    run: "synthesizeStreaming (testExt twoChunks) (requestWithoutReference\<lparr>tts_stripHeaders := None\<rparr>)
       (ext_service (testExt twoChunks)) instantLastResolved
       (DirOut 1 ''./tts-audio'' ''tts-'' Wav) historyWorld = (Inr written, w')"
    and remote: "w_remote w' = w_remote historyWorld @
       [SynthesizeJsonStreaming
          (requestWithoutReference\<lparr>tts_stripHeaders := None, tts_stripHeaders := Some True\<rparr>)]"
    by auto
  have "\<not> isl (fst (synthesize (testExt twoChunks) instantLastIndex0 historyWorld))
   \<and> w_remote (snd (synthesize (testExt twoChunks) instantLastIndex0 historyWorld)) =
       [SynthesizeJsonStreaming requestWithoutReference]"
    unfolding synthesize_instantLastIndex0 run
    using remote by (simp add: r historyWorld_def emptyWorld_def)
  then show ?thesis by (simp add: requestWithoutReference_def)
qed

end
